theory Spec2Isabelle
  imports Main "HOL-Library.AList"
begin

section \<open>Values crossing the JavaScript boundary\<close>

text \<open>
  The TypeScript sources type tool arguments, tool results and input schemas as
  \<^verbatim>\<open>unknown\<close> or \<^verbatim>\<open>Record<string, unknown>\<close>. The manager never inspects them, so
  any tree-shaped value type does; \<open>JUndefined\<close> is kept because an \<^verbatim>\<open>unknown\<close> may be
  \<^verbatim>\<open>undefined\<close>.
\<close>

datatype jsvalue =
    JUndefined
  | JNull
  | JBool bool
  | JNum int
  | JStr string
  | JArr "jsvalue list"
  | JObj "(string \<times> jsvalue) list"

text \<open>
  Whatever a \<^verbatim>\<open>throw\<close> or a rejected promise carries: an \<^verbatim>\<open>Error\<close> instance with
  its message, or some other value.
\<close>

datatype js_thrown = JsError string | JsOther jsvalue

text \<open>The value an \<^verbatim>\<open>async\<close> function settles with: \<open>Inl\<close> rejected, \<open>Inr\<close> fulfilled.\<close>

type_synonym 'a promise = "js_thrown + 'a"

section \<open>lib/mcp/types.ts\<close>

text \<open>
  Where two interfaces share a field name (\<^verbatim>\<open>name\<close>, \<^verbatim>\<open>description\<close>,
  \<^verbatim>\<open>status\<close>, \<^verbatim>\<open>servers\<close>, \<^verbatim>\<open>version\<close>), a prefix naming the interface keeps
  the two apart; \<^verbatim>\<open>id\<close>, which HOL already uses, is \<open>cfg_id\<close>. An optional field
  \<^verbatim>\<open>f?: T\<close> is a \<open>T option\<close>; timestamps are natural numbers of milliseconds.

  The configuration reaches \<^verbatim>\<open>connect\<close> from \<^verbatim>\<open>req.json()\<close> with only its
  \<^verbatim>\<open>id\<close> checked, so what the declarations promise of its transport fields need not
  hold at run time. \<^verbatim>\<open>TransportType\<close> is declared as a union of three literals and
  \<^verbatim>\<open>createTransport\<close> has a \<^verbatim>\<open>default\<close> branch for the other strings, so it is a
  string here. \<^verbatim>\<open>StdioConfig.command\<close> and \<^verbatim>\<open>HttpConfig.url\<close> are declared
  required and are read without a check, so each is an option here, \<open>None\<close> when
  the property is missing.
\<close>

type_synonym TransportType = string

record StdioConfig =
  command :: "string option"
  args :: "string list option"
  env :: "(string \<times> string) list option"
  cwd :: "string option"

record HttpConfig =
  url :: "string option"
  headers :: "(string \<times> string) list option"

text \<open>
  \<^verbatim>\<open>Omit<MCPServerConfig, "id" | "createdAt" | "updatedAt">\<close> is the record below, and
  \<^verbatim>\<open>MCPServerConfig\<close> extends it by the three omitted fields.
\<close>

record ServerFields =
  name :: string
  transportType :: TransportType
  stdioConfig :: "StdioConfig option"
  httpConfig :: "HttpConfig option"
  enabled :: bool

record MCPServerConfig = ServerFields +
  cfg_id :: string
  createdAt :: nat
  updatedAt :: nat

datatype ConnectionStatus = Disconnected | Connecting | Connected | Error

record MCPServerStatus =
  serverId :: string
  status :: ConnectionStatus
  error :: "string option"
  lastConnected :: "nat option"

record MCPTool =
  tool_name :: string
  tool_description :: "string option"
  inputSchema :: "jsvalue option"

record PromptArgument =
  arg_name :: string
  arg_description :: "string option"
  required :: "bool option"

record MCPPrompt =
  prompt_name :: string
  prompt_description :: "string option"
  arguments :: "PromptArgument list option"

record MCPResource =
  uri :: string
  resource_name :: string
  resource_description :: "string option"
  mimeType :: "string option"

record MCPServerCapabilities =
  tools :: "MCPTool list"
  prompts :: "MCPPrompt list"
  resources :: "MCPResource list"

section \<open>The SDK the manager wraps\<close>

text \<open>
  \<^verbatim>\<open>@modelcontextprotocol/sdk\<close> is not part of the repository. Its objects are modelled
  by what the manager hands to them, and its behaviour is a parameter: a record of
  functions giving the outcome of every SDK call the manager can make: \<open>Inl\<close> or
  \<open>Some\<close> of what was thrown when the call fails. The entries of the SDK's list
  results have more fields than the manager copies; \<open>tool_rest\<close>, \<open>prompt_rest\<close>
  and \<open>resource_rest\<close> stand for them.
\<close>

type_synonym URL = string

datatype Transport =
    StdioClientTransport "string option" "string list option" "(string \<times> string) list option" "string option"
  | StreamableHTTPClientTransport URL "(string \<times> string) list option"
  | SSEClientTransport URL

record Client =
  client_name :: string
  client_version :: string

record SdkTool = MCPTool +
  tool_rest :: jsvalue

record SdkPrompt = MCPPrompt +
  prompt_rest :: jsvalue

record SdkResource = MCPResource +
  resource_rest :: jsvalue

record sdk =
  new_URL :: "string \<Rightarrow> js_thrown + URL"
  client_connect :: "Client \<Rightarrow> Transport \<Rightarrow> js_thrown option"
  listTools :: "Client \<Rightarrow> SdkTool list promise"
  listPrompts :: "Client \<Rightarrow> SdkPrompt list promise"
  listResources :: "Client \<Rightarrow> SdkResource list promise"
  client_callTool :: "Client \<Rightarrow> string \<Rightarrow> (string \<times> jsvalue) list \<Rightarrow> jsvalue promise"
  client_getPrompt :: "Client \<Rightarrow> string \<Rightarrow> (string \<times> string) list option \<Rightarrow> jsvalue promise"
  client_readResource :: "Client \<Rightarrow> string \<Rightarrow> jsvalue promise"
  client_close :: "Client \<Rightarrow> js_thrown option"
  Date_now :: nat

text \<open>
  Every call that reaches the SDK is appended to a log, so that "no handshake was
  attempted" and "the remote server was not contacted" are statements about the log.
\<close>

datatype sdk_call =
    NewTransport Transport
  | Handshake Client Transport
  | ListTools Client
  | ListPrompts Client
  | ListResources Client
  | CallTool Client string "(string \<times> jsvalue) list"
  | GetPrompt Client string "(string \<times> string) list option"
  | ReadResource Client string
  | Close Client

section \<open>lib/mcp/client-manager.ts\<close>

text \<open>
  \<^verbatim>\<open>ManagedClient.client\<close> is declared non-null, but the failure path of \<^verbatim>\<open>connect\<close>
  stores \<^verbatim>\<open>null as unknown as Client\<close>, so the field is an option. The manager's
  \<^verbatim>\<open>Map<string, ManagedClient>\<close> is an association list in insertion order:
  \<^verbatim>\<open>Map.set\<close> on a present key replaces the value in place and on a new key appends,
  which is \<^const>\<open>AList.update\<close>; \<^verbatim>\<open>Map.get\<close> is \<^const>\<open>map_of\<close>.
\<close>

record ManagedClient =
  client :: "Client option"
  config :: MCPServerConfig
  mc_status :: MCPServerStatus
  capabilities :: "MCPServerCapabilities option"

record manager =
  clients :: "(string \<times> ManagedClient) list"
  calls :: "sdk_call list"

definition new_manager :: manager where
  "new_manager = \<lparr>clients = [], calls = []\<rparr>"

definition sdk_does :: "sdk_call list \<Rightarrow> manager \<Rightarrow> manager" where
  "sdk_does cs m = m\<lparr>calls := calls m @ cs\<rparr>"

definition error_message :: "js_thrown \<Rightarrow> string" where
  "error_message e = (case e of JsError msg \<Rightarrow> msg | JsOther v \<Rightarrow> ''Unknown error'')"

definition new_Client :: "MCPServerConfig \<Rightarrow> Client" where
  "new_Client cfg = \<lparr>client_name = ''mcp-client-'' @ cfg_id cfg, client_version = ''1.0.0''\<rparr>"

text \<open>
  \<^verbatim>\<open>new URL(x)\<close> for a property \<^verbatim>\<open>x\<close> that may be missing. The constructor reads
  \<^verbatim>\<open>undefined\<close> as the relative reference "undefined", and without a base that is a
  \<^verbatim>\<open>TypeError\<close> in every engine; the wording of its message is the engine's.
\<close>

definition new_URL_of :: "sdk \<Rightarrow> string option \<Rightarrow> js_thrown + URL" where
  "new_URL_of k x = (case x of None \<Rightarrow> Inl (JsError ''Invalid URL'') | Some s \<Rightarrow> new_URL k s)"

definition createTransport :: "sdk \<Rightarrow> MCPServerConfig \<Rightarrow> js_thrown + Transport" where
  "createTransport k cfg =
    (if transportType cfg = ''stdio'' then
       (case stdioConfig cfg of
          None \<Rightarrow> Inl (JsError ''STDIO config is required for STDIO transport'')
        | Some sc \<Rightarrow> Inr (StdioClientTransport (command sc) (args sc) (env sc) (cwd sc)))
     else if transportType cfg = ''streamable-http'' then
       (case httpConfig cfg of
          None \<Rightarrow> Inl (JsError ''HTTP config is required for Streamable HTTP transport'')
        | Some hc \<Rightarrow>
            (case new_URL_of k (url hc) of
               Inl e \<Rightarrow> Inl e
             | Inr u \<Rightarrow> Inr (StreamableHTTPClientTransport u (headers hc))))
     else if transportType cfg = ''sse'' then
       (case httpConfig cfg of
          None \<Rightarrow> Inl (JsError ''HTTP config is required for SSE transport'')
        | Some hc \<Rightarrow>
            (case new_URL_of k (url hc) of
               Inl e \<Rightarrow> Inl e
             | Inr u \<Rightarrow> Inr (SSEClientTransport u)))
     else Inl (JsError (''Unsupported transport type: '' @ transportType cfg)))"

text \<open>
  \<^verbatim>\<open>Promise.allSettled\<close> starts the three queries and never rejects; a rejected query
  contributes the empty list, a fulfilled one the copies of its entries.
\<close>

definition fetchCapabilities :: "sdk \<Rightarrow> Client \<Rightarrow> MCPServerCapabilities" where
  "fetchCapabilities k c =
    \<lparr>tools =
       (case listTools k c of
          Inr ts \<Rightarrow> map (\<lambda>t. \<lparr>tool_name = tool_name t, tool_description = tool_description t,
                             inputSchema = inputSchema t\<rparr>) ts
        | Inl e \<Rightarrow> []),
     prompts =
       (case listPrompts k c of
          Inr ps \<Rightarrow> map (\<lambda>p. \<lparr>prompt_name = prompt_name p, prompt_description = prompt_description p,
                             arguments = arguments p\<rparr>) ps
        | Inl e \<Rightarrow> []),
     resources =
       (case listResources k c of
          Inr rs \<Rightarrow> map (\<lambda>r. \<lparr>uri = uri r, resource_name = resource_name r,
                             resource_description = resource_description r, mimeType = mimeType r\<rparr>) rs
        | Inl e \<Rightarrow> [])\<rparr>"

text \<open>
  The body of the \<^verbatim>\<open>try\<close> block of \<^verbatim>\<open>connect\<close>: it either throws (\<open>Inl\<close>) or stores
  the connected record and yields its status. The SDK calls made before a throw stay
  in the log.
\<close>

definition connect_try :: "sdk \<Rightarrow> MCPServerConfig \<Rightarrow> manager \<Rightarrow> (js_thrown + MCPServerStatus) \<times> manager" where
  "connect_try k cfg m =
    (let c = new_Client cfg in
     case createTransport k cfg of
       Inl e \<Rightarrow> (Inl e, m)
     | Inr transport \<Rightarrow>
         (case client_connect k c transport of
            Some e \<Rightarrow> (Inl e, sdk_does [NewTransport transport, Handshake c transport] m)
          | None \<Rightarrow>
              (let caps = fetchCapabilities k c;
                   connectedStatus = \<lparr>serverId = cfg_id cfg, status = Connected, error = None,
                                      lastConnected = Some (Date_now k)\<rparr>;
                   m1 = sdk_does [NewTransport transport, Handshake c transport,
                                  ListTools c, ListPrompts c, ListResources c] m
               in (Inr connectedStatus,
                   m1\<lparr>clients := AList.update (cfg_id cfg)
                          \<lparr>client = Some c, config = cfg, mc_status = connectedStatus,
                           capabilities = Some caps\<rparr> (clients m1)\<rparr>))))"

text \<open>
  The \<^verbatim>\<open>catch\<close> block of \<^verbatim>\<open>connect\<close>, applied to the outcome of the \<^verbatim>\<open>try\<close> block.
\<close>

definition connect_catch :: "MCPServerConfig \<Rightarrow> (js_thrown + MCPServerStatus) \<times> manager \<Rightarrow> MCPServerStatus promise \<times> manager" where
  "connect_catch cfg r =
    (case r of
       (Inr st, m1) \<Rightarrow> (Inr st, m1)
     | (Inl e, m1) \<Rightarrow>
         (let errorStatus = \<lparr>serverId = cfg_id cfg, status = Error,
                              error = Some (error_message e), lastConnected = None\<rparr>
          in (Inr errorStatus,
              m1\<lparr>clients := AList.update (cfg_id cfg)
                     \<lparr>client = None, config = cfg, mc_status = errorStatus,
                      capabilities = None\<rparr> (clients m1)\<rparr>)))"

definition connect :: "sdk \<Rightarrow> MCPServerConfig \<Rightarrow> manager \<Rightarrow> MCPServerStatus promise \<times> manager" where
  "connect k cfg m =
    (case map_of (clients m) (cfg_id cfg) of
       Some existingClient \<Rightarrow>
         if status (mc_status existingClient) = Connected
         then (Inr (mc_status existingClient), m)
         else connect_catch cfg (connect_try k cfg m)
     | None \<Rightarrow> connect_catch cfg (connect_try k cfg m))"

definition disconnected_status :: "string \<Rightarrow> MCPServerStatus" where
  "disconnected_status sid =
    \<lparr>serverId = sid, status = Disconnected, error = None, lastConnected = None\<rparr>"

text \<open>
  \<^verbatim>\<open>disconnect\<close>: the \<^verbatim>\<open>try\<close> block calls \<^verbatim>\<open>close\<close> on a non-null handle of a
  connected record; the \<^verbatim>\<open>catch\<close> block only writes to the console, so whatever
  \<^verbatim>\<open>close\<close> settles with, execution continues after it. The stored record is the old
  one with \<^verbatim>\<open>status\<close> and \<^verbatim>\<open>capabilities\<close> overwritten (\<^verbatim>\<open>...managedClient\<close>).
\<close>

definition disconnect :: "sdk \<Rightarrow> string \<Rightarrow> manager \<Rightarrow> MCPServerStatus promise \<times> manager" where
  "disconnect k sid m =
    (case map_of (clients m) sid of
       None \<Rightarrow> (Inr (disconnected_status sid), m)
     | Some managedClient \<Rightarrow>
         (let m1 = (case client managedClient of
                      Some c \<Rightarrow>
                        if status (mc_status managedClient) = Connected
                        then (case client_close k c of
                                None \<Rightarrow> sdk_does [Close c] m
                              | Some e \<Rightarrow> sdk_does [Close c] m)
                        else m
                    | None \<Rightarrow> m);
              st = disconnected_status sid
          in (Inr st,
              m1\<lparr>clients := AList.update sid
                     (managedClient\<lparr>mc_status := st, capabilities := None\<rparr>) (clients m1)\<rparr>)))"

definition getStatus :: "manager \<Rightarrow> string \<Rightarrow> MCPServerStatus" where
  "getStatus m sid =
    (case map_of (clients m) sid of
       Some managedClient \<Rightarrow> mc_status managedClient
     | None \<Rightarrow> disconnected_status sid)"

definition getAllStatuses :: "manager \<Rightarrow> MCPServerStatus list" where
  "getAllStatuses m = map (\<lambda>mc. mc_status mc) (map snd (clients m))"

definition getCapabilities :: "manager \<Rightarrow> string \<Rightarrow> MCPServerCapabilities option" where
  "getCapabilities m sid =
    (case map_of (clients m) sid of
       Some managedClient \<Rightarrow> capabilities managedClient
     | None \<Rightarrow> None)"

definition not_connected_error :: "string \<Rightarrow> js_thrown" where
  "not_connected_error sid = JsError (''Server '' @ sid @ '' is not connected'')"

text \<open>
  Calling a method on a \<^verbatim>\<open>null\<close> handle throws a \<^verbatim>\<open>TypeError\<close>; the wording of its
  message belongs to the JavaScript engine, so only the method's name is fixed here.
\<close>

definition null_handle_error :: "string \<Rightarrow> js_thrown" where
  "null_handle_error method = JsError (''Cannot read properties of null: '' @ method)"

definition callTool :: "sdk \<Rightarrow> string \<Rightarrow> string \<Rightarrow> (string \<times> jsvalue) list option \<Rightarrow> manager
    \<Rightarrow> jsvalue promise \<times> manager" where
  "callTool k sid toolName targs m =
    (case map_of (clients m) sid of
       None \<Rightarrow> (Inl (not_connected_error sid), m)
     | Some managedClient \<Rightarrow>
         if status (mc_status managedClient) \<noteq> Connected
         then (Inl (not_connected_error sid), m)
         else (case client managedClient of
                 None \<Rightarrow> (Inl (null_handle_error ''callTool''), m)
               | Some c \<Rightarrow>
                   (let a = (case targs of None \<Rightarrow> [] | Some given \<Rightarrow> given)
                    in (client_callTool k c toolName a, sdk_does [CallTool c toolName a] m))))"

definition getPrompt :: "sdk \<Rightarrow> string \<Rightarrow> string \<Rightarrow> (string \<times> string) list option \<Rightarrow> manager
    \<Rightarrow> jsvalue promise \<times> manager" where
  "getPrompt k sid promptName pargs m =
    (case map_of (clients m) sid of
       None \<Rightarrow> (Inl (not_connected_error sid), m)
     | Some managedClient \<Rightarrow>
         if status (mc_status managedClient) \<noteq> Connected
         then (Inl (not_connected_error sid), m)
         else (case client managedClient of
                 None \<Rightarrow> (Inl (null_handle_error ''getPrompt''), m)
               | Some c \<Rightarrow>
                   (client_getPrompt k c promptName pargs,
                    sdk_does [GetPrompt c promptName pargs] m)))"

definition readResource :: "sdk \<Rightarrow> string \<Rightarrow> string \<Rightarrow> manager \<Rightarrow> jsvalue promise \<times> manager" where
  "readResource k sid ruri m =
    (case map_of (clients m) sid of
       None \<Rightarrow> (Inl (not_connected_error sid), m)
     | Some managedClient \<Rightarrow>
         if status (mc_status managedClient) \<noteq> Connected
         then (Inl (not_connected_error sid), m)
         else (case client managedClient of
                 None \<Rightarrow> (Inl (null_handle_error ''readResource''), m)
               | Some c \<Rightarrow>
                   (client_readResource k c ruri, sdk_does [ReadResource c ruri] m)))"

text \<open>
  \<^verbatim>\<open>disconnectAll\<close> starts one \<^verbatim>\<open>disconnect\<close> per key and awaits them with
  \<^verbatim>\<open>Promise.all\<close>, which rejects with the first rejection, if any. Each of the
  disconnects reads and writes its own key only, so they are run here one after the
  other in key order.
\<close>

fun disconnect_each :: "sdk \<Rightarrow> string list \<Rightarrow> manager \<Rightarrow> MCPServerStatus promise list \<times> manager" where
  "disconnect_each k [] m = ([], m)"
| "disconnect_each k (sid # sids) m =
    (let (r, m1) = disconnect k sid m;
         (rs, m2) = disconnect_each k sids m1
     in (r # rs, m2))"

fun Promise_all :: "'a promise list \<Rightarrow> 'a list promise" where
  "Promise_all [] = Inr []"
| "Promise_all (Inl e # ps) = Inl e"
| "Promise_all (Inr v # ps) = (case Promise_all ps of Inl e \<Rightarrow> Inl e | Inr vs \<Rightarrow> Inr (v # vs))"

definition disconnectAll :: "sdk \<Rightarrow> manager \<Rightarrow> unit promise \<times> manager" where
  "disconnectAll k m =
    (let serverIds = map fst (clients m);
         (rs, m1) = disconnect_each k serverIds m
     in (case Promise_all rs of Inl e \<Rightarrow> Inl e | Inr sts \<Rightarrow> Inr (), m1))"

subsection \<open>Histories of the manager\<close>

text \<open>
  One value per call of a method that can write to the manager or reach the SDK, each
  with the SDK behaviour met during that call. \<^verbatim>\<open>getStatus\<close>, \<^verbatim>\<open>getAllStatuses\<close> and
  \<^verbatim>\<open>getCapabilities\<close> are functions of the manager alone and change nothing.
  The calls are served one after the other: every method is taken as a whole, and two
  calls that overlap at an \<^verbatim>\<open>await\<close> are outside this development.
\<close>

datatype request =
    DoConnect sdk MCPServerConfig
  | DoDisconnect sdk string
  | DoDisconnectAll sdk
  | DoCallTool sdk string string "(string \<times> jsvalue) list option"
  | DoGetPrompt sdk string string "(string \<times> string) list option"
  | DoReadResource sdk string string

fun serve :: "request \<Rightarrow> manager \<Rightarrow> manager" where
  "serve (DoConnect k cfg) m = snd (connect k cfg m)"
| "serve (DoDisconnect k sid) m = snd (disconnect k sid m)"
| "serve (DoDisconnectAll k) m = snd (disconnectAll k m)"
| "serve (DoCallTool k sid t a) m = snd (callTool k sid t a m)"
| "serve (DoGetPrompt k sid p a) m = snd (getPrompt k sid p a m)"
| "serve (DoReadResource k sid u) m = snd (readResource k sid u m)"

definition history :: "request list \<Rightarrow> manager" where
  "history rs = fold serve rs new_manager"



section \<open>lib/mcp/storage.ts\<close>

text \<open>
  The storage service keeps the configurations in the browser's \<^verbatim>\<open>localStorage\<close>
  under one key, as JSON text. The browser is a parameter: whether \<^verbatim>\<open>window\<close>
  exists, what \<^verbatim>\<open>JSON.parse\<close> and \<^verbatim>\<open>JSON.stringify\<close> do on the stored shape,
  whether \<^verbatim>\<open>setItem\<close> throws (a full quota), the clock, and \<^verbatim>\<open>generateId\<close> of
  \<^verbatim>\<open>lib/utils\<close>, of which only the calls are modelled: \<open>generateId b i\<close> is the id
  its \<open>i\<close>-th call returns during one \<^verbatim>\<open>importServers\<close>. A parse result without a
  \<^verbatim>\<open>servers\<close> property has \<open>stored_servers = None\<close>; a parse result that is not an
  object makes the property access throw, which is an \<open>Inl\<close> of \<open>JSON_parse\<close> here.
\<close>

definition STORAGE_KEY :: string where
  "STORAGE_KEY = ''mcp_servers''"

definition STORAGE_VERSION :: nat where
  "STORAGE_VERSION = 1"

record MCPStorageData =
  stored_servers :: "MCPServerConfig list option"
  stored_version :: nat

record MCPExportData =
  export_version :: nat
  exportedAt :: nat
  export_servers :: "ServerFields list"

record browser =
  window_defined :: bool
  JSON_parse :: "string \<Rightarrow> js_thrown + MCPStorageData"
  JSON_stringify :: "MCPStorageData \<Rightarrow> js_thrown + string"
  setItem_throws :: "string \<Rightarrow> string \<Rightarrow> js_thrown option"
  generateId :: "nat \<Rightarrow> string"
  time_now :: nat

type_synonym localStorage = "string \<Rightarrow> string option"

definition getServers :: "browser \<Rightarrow> localStorage \<Rightarrow> MCPServerConfig list" where
  "getServers b ls =
    (if \<not> window_defined b then []
     else (case ls STORAGE_KEY of
             None \<Rightarrow> []
           | Some data \<Rightarrow>
               if data = [] then []
               else (case JSON_parse b data of
                       Inl e \<Rightarrow> []
                     | Inr parsed \<Rightarrow>
                         (case stored_servers parsed of None \<Rightarrow> [] | Some srvs \<Rightarrow> srvs))))"

definition saveServers :: "browser \<Rightarrow> MCPServerConfig list \<Rightarrow> localStorage \<Rightarrow> localStorage" where
  "saveServers b srvs ls =
    (if \<not> window_defined b then ls
     else (case JSON_stringify b \<lparr>stored_servers = Some srvs, stored_version = STORAGE_VERSION\<rparr> of
             Inl e \<Rightarrow> ls
           | Inr data \<Rightarrow>
               (case setItem_throws b STORAGE_KEY data of
                  Some e \<Rightarrow> ls
                | None \<Rightarrow> ls(STORAGE_KEY \<mapsto> data))))"

definition exportServers :: "browser \<Rightarrow> localStorage \<Rightarrow> MCPExportData" where
  "exportServers b ls =
    \<lparr>export_version = STORAGE_VERSION,
     exportedAt = time_now b,
     export_servers =
       map (\<lambda>s. \<lparr>name = name s, transportType = transportType s, stdioConfig = stdioConfig s,
                  httpConfig = httpConfig s, enabled = enabled s\<rparr>) (getServers b ls)\<rparr>"

text \<open>
  \<^verbatim>\<open>importServers(data, options = {})\<close> with \<^verbatim>\<open>const { merge = true } = options\<close>:
  the third argument is \<^verbatim>\<open>options.merge\<close>, \<open>None\<close> when it is left out.
\<close>

definition importServers :: "browser \<Rightarrow> MCPExportData \<Rightarrow> bool option \<Rightarrow> localStorage
    \<Rightarrow> MCPServerConfig list \<times> localStorage" where
  "importServers b data merge_option ls =
    (let merge = (case merge_option of None \<Rightarrow> True | Some given \<Rightarrow> given);
         now = time_now b;
         importedServers =
           map (\<lambda>(i, server).
                  \<lparr>name = name server, transportType = transportType server,
                   stdioConfig = stdioConfig server, httpConfig = httpConfig server,
                   enabled = enabled server,
                   cfg_id = generateId b i, createdAt = now, updatedAt = now\<rparr>)
               (enumerate 0 (export_servers data))
     in if merge
        then (let existingServers = getServers b ls;
                  allServers = existingServers @ importedServers
              in (allServers, saveServers b allServers ls))
        else (importedServers, saveServers b importedServers ls))"

section \<open>lib/supabase.ts: extended messages\<close>







section \<open>Predicates and sample inputs used by the statements\<close>

text \<open>A record for the id exists and its status is \<open>Connected\<close>.\<close>

definition is_connected :: "manager \<Rightarrow> string \<Rightarrow> bool" where
  "is_connected m sid =
    (case map_of (clients m) sid of
       Some managedClient \<Rightarrow> status (mc_status managedClient) = Connected
     | None \<Rightarrow> False)"

text \<open>
  A server that accepts the handshake, lists one tool and one resource, does not
  implement prompts, and fails when closed; and the same server refusing the handshake.
\<close>

definition example_sdk :: sdk where
  "example_sdk =
    \<lparr>new_URL = (\<lambda>s. if s = [] then Inl (JsError ''Invalid URL'') else Inr s),
     client_connect = (\<lambda>c t. None),
     listTools = (\<lambda>c. Inr [\<lparr>tool_name = ''echo'', tool_description = Some ''Echo the input'',
                              inputSchema = Some (JObj []), tool_rest = JStr ''annotations''\<rparr>]),
     listPrompts = (\<lambda>c. Inl (JsError ''Method not found'')),
     listResources = (\<lambda>c. Inr [\<lparr>uri = ''file:///notes'', resource_name = ''notes'',
                                  resource_description = None, mimeType = Some ''text/plain'',
                                  resource_rest = JNull\<rparr>]),
     client_callTool = (\<lambda>c t a. Inr (JObj a)),
     client_getPrompt = (\<lambda>c p a. Inl (JsError ''Method not found'')),
     client_readResource = (\<lambda>c u. Inr (JStr u)),
     client_close = (\<lambda>c. Some (JsError ''socket hang up'')),
     Date_now = 1700000000000\<rparr>"

definition refusing_sdk :: sdk where
  "refusing_sdk = example_sdk\<lparr>client_connect := (\<lambda>c t. Some (JsError ''ECONNREFUSED''))\<rparr>"

definition example_config :: MCPServerConfig where
  "example_config =
    \<lparr>name = ''files'', transportType = ''stdio'',
     stdioConfig = Some \<lparr>command = Some ''npx'', args = Some [''server-files''], env = None, cwd = None\<rparr>,
     httpConfig = None, enabled = True, cfg_id = ''srv-1'', createdAt = 1, updatedAt = 1\<rparr>"

definition example_connected :: manager where
  "example_connected = snd (connect example_sdk example_config new_manager)"

text \<open>A \<^verbatim>\<open>stdio\<close> configuration whose \<^verbatim>\<open>stdioConfig\<close> is present but has no command.\<close>

definition no_command_config :: MCPServerConfig where
  "no_command_config =
    example_config\<lparr>stdioConfig := Some \<lparr>command = None, args = None, env = None, cwd = None\<rparr>,
                    cfg_id := ''srv-2''\<rparr>"

text \<open>
  What the methods keep true of every stored record, and of the list of records: a
  connected record has a handle and a capability snapshot, no record is ever stored as
  \<open>Connecting\<close>, and no key occurs twice (as in a JavaScript \<^verbatim>\<open>Map\<close>).
\<close>

definition record_ok :: "ManagedClient \<Rightarrow> bool" where
  "record_ok mc =
    ((status (mc_status mc) = Connected \<longrightarrow> client mc \<noteq> None \<and> capabilities mc \<noteq> None) \<and>
     status (mc_status mc) \<noteq> Connecting)"

definition records_ok :: "manager \<Rightarrow> bool" where
  "records_ok m = (\<forall>sid mc. map_of (clients m) sid = Some mc \<longrightarrow> record_ok mc)"

definition well_formed :: "manager \<Rightarrow> bool" where
  "well_formed m = (records_ok m \<and> distinct (map fst (clients m)))"

definition tracked :: "manager \<Rightarrow> string set" where
  "tracked m = fst ` set (clients m)"

text \<open>
  The record \<^verbatim>\<open>disconnect\<close> stores in place of a record, and the SDK calls it makes
  for it.
\<close>

definition as_disconnected :: "string \<Rightarrow> ManagedClient \<Rightarrow> ManagedClient" where
  "as_disconnected sid mc = mc\<lparr>mc_status := disconnected_status sid, capabilities := None\<rparr>"

definition closing :: "ManagedClient \<Rightarrow> sdk_call list" where
  "closing mc =
    (case client mc of
       Some c \<Rightarrow> if status (mc_status mc) = Connected then [Close c] else []
     | None \<Rightarrow> [])"

text \<open>Three servers connected one after the other.\<close>

definition three_connected :: manager where
  "three_connected =
    history [DoConnect example_sdk example_config,
             DoConnect example_sdk (example_config\<lparr>cfg_id := ''srv-2''\<rparr>),
             DoConnect example_sdk (example_config\<lparr>cfg_id := ''srv-3''\<rparr>)]"

text \<open>The entry \<^verbatim>\<open>importServers\<close> builds from the \<open>i\<close>-th server of the imported data.\<close>

definition imported_entry :: "browser \<Rightarrow> nat \<Rightarrow> ServerFields \<Rightarrow> MCPServerConfig" where
  "imported_entry b i server =
    \<lparr>name = name server, transportType = transportType server, stdioConfig = stdioConfig server,
     httpConfig = httpConfig server, enabled = enabled server,
     cfg_id = generateId b i, createdAt = time_now b, updatedAt = time_now b\<rparr>"

text \<open>
  The browser stores a list of configurations and gives it back: \<^verbatim>\<open>window\<close> exists,
  \<^verbatim>\<open>JSON.stringify\<close> yields a non-empty text for it, \<^verbatim>\<open>setItem\<close> accepts the text,
  and \<^verbatim>\<open>JSON.parse\<close> of the text is the list again.
\<close>

definition storage_accepts :: "browser \<Rightarrow> MCPServerConfig list \<Rightarrow> bool" where
  "storage_accepts b srvs =
    (window_defined b \<and>
     (case JSON_stringify b \<lparr>stored_servers = Some srvs, stored_version = STORAGE_VERSION\<rparr> of
        Inl e \<Rightarrow> False
      | Inr data \<Rightarrow>
          data \<noteq> [] \<and> setItem_throws b STORAGE_KEY data = None \<and>
          JSON_parse b data = Inr \<lparr>stored_servers = Some srvs, stored_version = STORAGE_VERSION\<rparr>))"

text \<open>
  The browser does not take the write: \<^verbatim>\<open>window\<close> is missing, or
  \<^verbatim>\<open>JSON.stringify\<close> or \<^verbatim>\<open>setItem\<close> throws. \<^verbatim>\<open>saveServers\<close> catches that and
  only logs it.
\<close>

definition write_refused :: "browser \<Rightarrow> MCPServerConfig list \<Rightarrow> bool" where
  "write_refused b srvs =
    (\<not> window_defined b \<or>
     (case JSON_stringify b \<lparr>stored_servers = Some srvs, stored_version = STORAGE_VERSION\<rparr> of
        Inl e \<Rightarrow> True
      | Inr data \<Rightarrow> setItem_throws b STORAGE_KEY data \<noteq> None))"

text \<open>
  A browser whose JSON functions are a two-entry table, with one configuration stored;
  the same browser with its storage quota used up; and a JSON table for two messages,
  with the texts and the results that \<^verbatim>\<open>JSON.stringify\<close> and \<^verbatim>\<open>JSON.parse\<close> give for
  them (an \<^verbatim>\<open>undefined\<close> array element is written as \<^verbatim>\<open>null\<close>). \<open>dq\<close> puts a
  text between double quotes.
\<close>

definition example_stored :: "MCPServerConfig list" where
  "example_stored = [example_config]"

definition example_merged :: "MCPServerConfig list" where
  "example_merged =
     [example_config, example_config\<lparr>cfg_id := ''id-0'', createdAt := 1700000000500, updatedAt := 1700000000500\<rparr>]"

definition example_browser :: browser where
  "example_browser =
    \<lparr>window_defined = True,
     JSON_parse = (\<lambda>data. if data = ''one-server'' then Inr \<lparr>stored_servers = Some example_stored, stored_version = 1\<rparr>
                          else if data = ''two-servers'' then Inr \<lparr>stored_servers = Some example_merged, stored_version = 1\<rparr>
                          else Inl (JsError ''Unexpected token'')),
     JSON_stringify = (\<lambda>d. if stored_servers d = Some example_stored then Inr ''one-server''
                           else if stored_servers d = Some example_merged then Inr ''two-servers''
                           else Inl (JsError ''not in the table'')),
     setItem_throws = (\<lambda>key data. None),
     generateId = (\<lambda>i. ''id-'' @ replicate i CHR ''+'' @ ''0''),
     time_now = 1700000000500\<rparr>"

definition example_localStorage :: localStorage where
  "example_localStorage = Map.empty(''mcp_servers'' \<mapsto> ''one-server'')"

definition quota_browser :: browser where
  "quota_browser = example_browser\<lparr>setItem_throws := (\<lambda>key data. Some (JsError ''QuotaExceededError''))\<rparr>"





section \<open>Properties of the connection manager\<close>

lemma fst_connect_catch: "\<exists>st. fst (connect_catch cfg r) = Inr st"
  by (cases r; cases "fst r") (auto simp: connect_catch_def Let_def split: sum.splits prod.splits)

text \<open>
  Claim C1. \<^verbatim>\<open>connect\<close> never rejects, whatever the configuration, the manager and the
  SDK's behaviour. A failure of transport construction or of the handshake presupposes
  that \<^verbatim>\<open>connect\<close> got past its already-connected check; when either of them throws
  \<open>e\<close>, the record stored for the configuration's id has status \<open>Error\<close>, the message
  of \<open>e\<close> (\<^verbatim>\<open>"Unknown error"\<close> when \<open>e\<close> is not an \<^verbatim>\<open>Error\<close> instance), a null
  client handle and null capabilities, and \<^verbatim>\<open>connect\<close> resolves with that status.
\<close>

theorem connect_never_throws:
  "(\<exists>st. fst (connect k cfg m) = Inr st) \<and>
   (\<not> is_connected m (cfg_id cfg) \<and>
    (createTransport k cfg = Inl e \<or>
     (\<exists>t. createTransport k cfg = Inr t \<and> client_connect k (new_Client cfg) t = Some e)) \<longrightarrow>
    fst (connect k cfg m) =
      Inr \<lparr>serverId = cfg_id cfg, status = Error, error = Some (error_message e), lastConnected = None\<rparr> \<and>
    map_of (clients (snd (connect k cfg m))) (cfg_id cfg) =
      Some \<lparr>client = None, config = cfg,
            mc_status = \<lparr>serverId = cfg_id cfg, status = Error, error = Some (error_message e),
                         lastConnected = None\<rparr>,
            capabilities = None\<rparr>)"
proof (intro conjI impI)
  show "\<exists>st. fst (connect k cfg m) = Inr st"
    using fst_connect_catch [of cfg "connect_try k cfg m"]
    by (auto simp: connect_def split: option.splits)
next
  assume h: "\<not> is_connected m (cfg_id cfg) \<and>
    (createTransport k cfg = Inl e \<or>
     (\<exists>t. createTransport k cfg = Inr t \<and> client_connect k (new_Client cfg) t = Some e))"
  then have c: "connect k cfg m = connect_catch cfg (connect_try k cfg m)"
    by (auto simp: connect_def is_connected_def split: option.splits)
  from h have "\<exists>m1. connect_try k cfg m = (Inl e, m1)"
    by (auto simp: connect_try_def Let_def)
  then obtain m1 where t: "connect_try k cfg m = (Inl e, m1)" ..
  show "fst (connect k cfg m) =
      Inr \<lparr>serverId = cfg_id cfg, status = Error, error = Some (error_message e), lastConnected = None\<rparr>"
    by (simp add: c t connect_catch_def Let_def)
  show "map_of (clients (snd (connect k cfg m))) (cfg_id cfg) =
      Some \<lparr>client = None, config = cfg,
            mc_status = \<lparr>serverId = cfg_id cfg, status = Error, error = Some (error_message e),
                         lastConnected = None\<rparr>,
            capabilities = None\<rparr>"
    by (simp add: c t connect_catch_def Let_def update_conv')
qed

theorem connect_never_throws_witness:
  "\<not> is_connected new_manager (cfg_id example_config) \<and>
   (\<exists>t. createTransport refusing_sdk example_config = Inr t \<and>
        client_connect refusing_sdk (new_Client example_config) t = Some (JsError ''ECONNREFUSED'')) \<and>
   fst (connect refusing_sdk example_config new_manager) =
     Inr \<lparr>serverId = ''srv-1'', status = Error, error = Some ''ECONNREFUSED'', lastConnected = None\<rparr> \<and>
   getStatus (snd (connect refusing_sdk example_config new_manager)) ''srv-1'' =
     \<lparr>serverId = ''srv-1'', status = Error, error = Some ''ECONNREFUSED'', lastConnected = None\<rparr>"
  using connect_never_throws [of refusing_sdk example_config new_manager "JsError ''ECONNREFUSED''"]
  by (simp add: is_connected_def new_manager_def example_config_def refusing_sdk_def example_sdk_def
      createTransport_def new_Client_def error_message_def getStatus_def)

lemmas example_defs = example_sdk_def refusing_sdk_def example_config_def new_manager_def
lemmas connect_defs = connect_def connect_try_def connect_catch_def createTransport_def
  fetchCapabilities_def new_Client_def sdk_does_def error_message_def

lemma example_connected_eq:
  "example_connected =
    \<lparr>clients = [(''srv-1'',
        \<lparr>client = Some \<lparr>client_name = ''mcp-client-srv-1'', client_version = ''1.0.0''\<rparr>,
         config = example_config,
         mc_status = \<lparr>serverId = ''srv-1'', status = Connected, error = None,
                      lastConnected = Some 1700000000000\<rparr>,
         capabilities = Some \<lparr>tools = [\<lparr>tool_name = ''echo'', tool_description = Some ''Echo the input'',
                                          inputSchema = Some (JObj [])\<rparr>],
                               prompts = [],
                               resources = [\<lparr>uri = ''file:///notes'', resource_name = ''notes'',
                                  resource_description = None, mimeType = Some ''text/plain''\<rparr>]\<rparr>\<rparr>)],
     calls = [NewTransport (StdioClientTransport (Some ''npx'') (Some [''server-files'']) None None),
              Handshake \<lparr>client_name = ''mcp-client-srv-1'', client_version = ''1.0.0''\<rparr>
                 (StdioClientTransport (Some ''npx'') (Some [''server-files'']) None None),
              ListTools \<lparr>client_name = ''mcp-client-srv-1'', client_version = ''1.0.0''\<rparr>,
              ListPrompts \<lparr>client_name = ''mcp-client-srv-1'', client_version = ''1.0.0''\<rparr>,
              ListResources \<lparr>client_name = ''mcp-client-srv-1'', client_version = ''1.0.0''\<rparr>]\<rparr>"
  by (simp add: example_connected_def connect_defs example_defs Let_def)

text \<open>
  Claim C5. A \<^verbatim>\<open>connect\<close> for an id whose record is connected resolves with the
  stored status and leaves the manager as it was: the record (its configuration and
  capability snapshot included) is untouched and the SDK is not called, so no transport
  is constructed. The supplied configuration is not compared with the stored one.
\<close>

theorem connect_idempotent:
  "map_of (clients m) (cfg_id cfg) = Some existing \<and> status (mc_status existing) = Connected \<longrightarrow>
   connect k cfg m = (Inr (mc_status existing), m)"
  by (simp add: connect_def)

theorem connect_idempotent_witness:
  "map_of (clients example_connected) ''srv-1'' \<noteq> None \<and>
   is_connected example_connected ''srv-1'' \<and>
   config (the (map_of (clients example_connected) ''srv-1'')) \<noteq>
     example_config\<lparr>name := ''renamed'', transportType := ''sse''\<rparr> \<and>
   connect refusing_sdk (example_config\<lparr>name := ''renamed'', transportType := ''sse''\<rparr>) example_connected =
     (Inr \<lparr>serverId = ''srv-1'', status = Connected, error = None, lastConnected = Some 1700000000000\<rparr>,
      example_connected)"
  using connect_idempotent [of example_connected "example_config\<lparr>name := ''renamed'', transportType := ''sse''\<rparr>"
      "the (map_of (clients example_connected) ''srv-1'')" refusing_sdk]
  by (simp add: example_connected_eq is_connected_def) (simp add: example_config_def)

text \<open>
  Claim C7, as stated, at two inputs. First, a configuration of kind \<^verbatim>\<open>stdio\<close>
  without its \<^verbatim>\<open>stdioConfig\<close>, passed to a manager that holds a connected record
  for the same id: the already-connected check answers first, and the status is
  \<open>Connected\<close>, not \<open>Error\<close>. Second, a configuration of kind \<^verbatim>\<open>stdio\<close> whose
  \<^verbatim>\<open>stdioConfig\<close> is present but has no command, passed to a fresh manager:
  \<^verbatim>\<open>createTransport\<close> tests only that \<^verbatim>\<open>stdioConfig\<close> is present, so the transport
  is built without a command and the handshake is attempted.
\<close>

theorem invalid_config_counterexample:
  "transportType (example_config\<lparr>stdioConfig := None\<rparr>) = ''stdio'' \<and>
   stdioConfig (example_config\<lparr>stdioConfig := None\<rparr>) = None \<and>
   fst (connect example_sdk (example_config\<lparr>stdioConfig := None\<rparr>) example_connected) =
     Inr \<lparr>serverId = ''srv-1'', status = Connected, error = None, lastConnected = Some 1700000000000\<rparr> \<and>
   transportType no_command_config = ''stdio'' \<and>
   stdioConfig no_command_config = Some \<lparr>command = None, args = None, env = None, cwd = None\<rparr> \<and>
   calls (snd (connect refusing_sdk no_command_config new_manager)) =
     [NewTransport (StdioClientTransport None None None None),
      Handshake \<lparr>client_name = ''mcp-client-srv-2'', client_version = ''1.0.0''\<rparr>
        (StdioClientTransport None None None None)]"
  by (simp add: example_connected_eq connect_defs no_command_config_def refusing_sdk_def example_sdk_def
      new_manager_def Let_def)
     (simp add: example_config_def)

text \<open>
  Claim C7, amended. Unless the manager already holds a connected record for the
  configuration's id, \<^verbatim>\<open>connect\<close> makes no SDK call at all (no transport, no
  handshake) and resolves with status \<open>Error\<close> and a message in each of these cases:
  kind \<^verbatim>\<open>stdio\<close> without \<^verbatim>\<open>stdioConfig\<close>; kind \<^verbatim>\<open>streamable-http\<close> or
  \<^verbatim>\<open>sse\<close> without \<^verbatim>\<open>httpConfig\<close>, or with an \<^verbatim>\<open>httpConfig\<close> whose URL is
  missing or is refused by \<^verbatim>\<open>new URL\<close>; a kind other than the three known ones,
  which the message names. The message is that of the matching branch of
  \<^verbatim>\<open>createTransport\<close>, or the one \<^verbatim>\<open>new URL\<close> throws. A \<^verbatim>\<open>stdio\<close> configuration
  whose \<^verbatim>\<open>stdioConfig\<close> is present is never refused by \<^verbatim>\<open>createTransport\<close>, with
  or without a command: the transport is built from it, the handshake is attempted, and
  the status is \<open>Error\<close> exactly when the handshake fails.
\<close>

theorem invalid_config_outcome:
  "(\<not> is_connected m (cfg_id cfg) \<and>
    (transportType cfg = ''stdio'' \<and> stdioConfig cfg = None \<and>
       msg = ''STDIO config is required for STDIO transport'' \<or>
     transportType cfg = ''streamable-http'' \<and> httpConfig cfg = None \<and>
       msg = ''HTTP config is required for Streamable HTTP transport'' \<or>
     transportType cfg = ''sse'' \<and> httpConfig cfg = None \<and>
       msg = ''HTTP config is required for SSE transport'' \<or>
     transportType cfg \<in> {''streamable-http'', ''sse''} \<and> httpConfig cfg = Some hc \<and> url hc = None \<and>
       msg = ''Invalid URL'' \<or>
     transportType cfg \<in> {''streamable-http'', ''sse''} \<and> httpConfig cfg = Some hc \<and> url hc = Some u \<and>
       new_URL k u = Inl e \<and> msg = error_message e \<or>
     transportType cfg \<notin> {''stdio'', ''streamable-http'', ''sse''} \<and>
       msg = ''Unsupported transport type: '' @ transportType cfg) \<longrightarrow>
    fst (connect k cfg m) =
      Inr \<lparr>serverId = cfg_id cfg, status = Error, error = Some msg, lastConnected = None\<rparr> \<and>
    calls (snd (connect k cfg m)) = calls m \<and>
    getStatus (snd (connect k cfg m)) (cfg_id cfg) =
      \<lparr>serverId = cfg_id cfg, status = Error, error = Some msg, lastConnected = None\<rparr>) \<and>
   (\<not> is_connected m (cfg_id cfg) \<and> transportType cfg = ''stdio'' \<and> stdioConfig cfg = Some sc \<and>
    t = StdioClientTransport (command sc) (args sc) (env sc) (cwd sc) \<longrightarrow>
    calls (snd (connect k cfg m)) =
      calls m @ [NewTransport t, Handshake (new_Client cfg) t] @
        (case client_connect k (new_Client cfg) t of
           None \<Rightarrow> [ListTools (new_Client cfg), ListPrompts (new_Client cfg), ListResources (new_Client cfg)]
         | Some x \<Rightarrow> []) \<and>
    fst (connect k cfg m) =
      (case client_connect k (new_Client cfg) t of
         None \<Rightarrow> Inr \<lparr>serverId = cfg_id cfg, status = Connected, error = None,
                       lastConnected = Some (Date_now k)\<rparr>
       | Some x \<Rightarrow> Inr \<lparr>serverId = cfg_id cfg, status = Error, error = Some (error_message x),
                         lastConnected = None\<rparr>))"
proof (intro conjI impI)
  assume h: "\<not> is_connected m (cfg_id cfg) \<and>
    (transportType cfg = ''stdio'' \<and> stdioConfig cfg = None \<and>
       msg = ''STDIO config is required for STDIO transport'' \<or>
     transportType cfg = ''streamable-http'' \<and> httpConfig cfg = None \<and>
       msg = ''HTTP config is required for Streamable HTTP transport'' \<or>
     transportType cfg = ''sse'' \<and> httpConfig cfg = None \<and>
       msg = ''HTTP config is required for SSE transport'' \<or>
     transportType cfg \<in> {''streamable-http'', ''sse''} \<and> httpConfig cfg = Some hc \<and> url hc = None \<and>
       msg = ''Invalid URL'' \<or>
     transportType cfg \<in> {''streamable-http'', ''sse''} \<and> httpConfig cfg = Some hc \<and> url hc = Some u \<and>
       new_URL k u = Inl e \<and> msg = error_message e \<or>
     transportType cfg \<notin> {''stdio'', ''streamable-http'', ''sse''} \<and>
       msg = ''Unsupported transport type: '' @ transportType cfg)"
  then have c: "connect k cfg m = connect_catch cfg (connect_try k cfg m)"
    by (auto simp: connect_def is_connected_def split: option.splits)
  from h have "\<exists>x. createTransport k cfg = Inl x \<and> error_message x = msg"
    by (auto simp: createTransport_def new_URL_of_def error_message_def)
  then obtain x where "createTransport k cfg = Inl x" and x: "error_message x = msg"
    by blast
  then have t: "connect_try k cfg m = (Inl x, m)"
    by (simp add: connect_try_def Let_def)
  show "fst (connect k cfg m) =
      Inr \<lparr>serverId = cfg_id cfg, status = Error, error = Some msg, lastConnected = None\<rparr>"
    by (simp add: c t x connect_catch_def Let_def)
  show "calls (snd (connect k cfg m)) = calls m"
    by (simp add: c t connect_catch_def Let_def)
  show "getStatus (snd (connect k cfg m)) (cfg_id cfg) =
      \<lparr>serverId = cfg_id cfg, status = Error, error = Some msg, lastConnected = None\<rparr>"
    by (simp add: c t x connect_catch_def Let_def getStatus_def update_conv')
next
  assume h: "\<not> is_connected m (cfg_id cfg) \<and> transportType cfg = ''stdio'' \<and> stdioConfig cfg = Some sc \<and>
    t = StdioClientTransport (command sc) (args sc) (env sc) (cwd sc)"
  then have c: "connect k cfg m = connect_catch cfg (connect_try k cfg m)"
    by (auto simp: connect_def is_connected_def split: option.splits)
  from h have ct: "createTransport k cfg = Inr t"
    by (simp add: createTransport_def)
  show "calls (snd (connect k cfg m)) =
      calls m @ [NewTransport t, Handshake (new_Client cfg) t] @
        (case client_connect k (new_Client cfg) t of
           None \<Rightarrow> [ListTools (new_Client cfg), ListPrompts (new_Client cfg), ListResources (new_Client cfg)]
         | Some x \<Rightarrow> [])"
    by (cases "client_connect k (new_Client cfg) t")
       (simp_all add: c ct connect_try_def connect_catch_def Let_def sdk_does_def)
  show "fst (connect k cfg m) =
      (case client_connect k (new_Client cfg) t of
         None \<Rightarrow> Inr \<lparr>serverId = cfg_id cfg, status = Connected, error = None,
                       lastConnected = Some (Date_now k)\<rparr>
       | Some x \<Rightarrow> Inr \<lparr>serverId = cfg_id cfg, status = Error, error = Some (error_message x),
                         lastConnected = None\<rparr>)"
    by (cases "client_connect k (new_Client cfg) t")
       (simp_all add: c ct connect_try_def connect_catch_def Let_def sdk_does_def)
qed

theorem invalid_config_outcome_witness:
  "\<not> is_connected new_manager ''srv-1'' \<and>
   transportType (example_config\<lparr>transportType := ''websocket''\<rparr>) \<notin> {''stdio'', ''streamable-http'', ''sse''} \<and>
   fst (connect example_sdk (example_config\<lparr>transportType := ''websocket''\<rparr>) new_manager) =
     Inr \<lparr>serverId = ''srv-1'', status = Error,
          error = Some ''Unsupported transport type: websocket'', lastConnected = None\<rparr> \<and>
   calls (snd (connect example_sdk (example_config\<lparr>transportType := ''websocket''\<rparr>) new_manager)) = [] \<and>
   \<not> is_connected new_manager ''srv-2'' \<and>
   stdioConfig no_command_config \<noteq> None \<and>
   fst (connect refusing_sdk no_command_config new_manager) =
     Inr \<lparr>serverId = ''srv-2'', status = Error, error = Some ''ECONNREFUSED'', lastConnected = None\<rparr> \<and>
   calls (snd (connect refusing_sdk no_command_config new_manager)) \<noteq> []"
  using invalid_config_outcome [of new_manager "example_config\<lparr>transportType := ''websocket''\<rparr>"
      "''Unsupported transport type: websocket''" "\<lparr>url = None, headers = None\<rparr>" "[]" example_sdk
      "JsError ''Invalid URL''" "\<lparr>command = None, args = None, env = None, cwd = None\<rparr>"
      "StdioClientTransport None None None None"]
    invalid_config_outcome [of new_manager no_command_config "[]" "\<lparr>url = None, headers = None\<rparr>" "[]" refusing_sdk
      "JsError ''Invalid URL''"
      "\<lparr>command = None, args = None, env = None, cwd = None\<rparr>"
      "StdioClientTransport None None None None"]
  by (simp add: is_connected_def new_manager_def example_config_def no_command_config_def
      refusing_sdk_def example_sdk_def new_Client_def error_message_def)

subsection \<open>What every method preserves\<close>

lemma records_ok_update:
  "records_ok m \<Longrightarrow> record_ok v \<Longrightarrow> records_ok (m\<lparr>clients := AList.update sid v (clients m)\<rparr>)"
  by (auto simp: records_ok_def update_conv' split: if_splits)

lemma records_ok_sdk_does [simp]: "records_ok (sdk_does cs m) = records_ok m"
  by (simp add: records_ok_def sdk_does_def)

lemma tracked_sdk_does [simp]: "tracked (sdk_does cs m) = tracked m"
  by (simp add: tracked_def sdk_does_def)

lemma connect_try_cases:
  "(\<exists>e cs. connect_try k cfg m = (Inl e, sdk_does cs m)) \<or>
   (\<exists>st cs v. connect_try k cfg m =
       (Inr st, (sdk_does cs m)\<lparr>clients := AList.update (cfg_id cfg) v (clients (sdk_does cs m))\<rparr>) \<and>
       record_ok v)"
proof (cases "createTransport k cfg")
  case (Inl e)
  then have "connect_try k cfg m = (Inl e, sdk_does [] m)"
    by (simp add: connect_try_def sdk_does_def)
  then show ?thesis by blast
next
  case (Inr t)
  show ?thesis
  proof (cases "client_connect k (new_Client cfg) t")
    case (Some e)
    with Inr show ?thesis
      by (auto simp: connect_try_def Let_def)
  next
    case None
    let ?cs = "[NewTransport t, Handshake (new_Client cfg) t, ListTools (new_Client cfg),
                ListPrompts (new_Client cfg), ListResources (new_Client cfg)]"
    let ?st = "\<lparr>serverId = cfg_id cfg, status = Connected, error = None,
                lastConnected = Some (Date_now k)\<rparr>"
    let ?v = "\<lparr>client = Some (new_Client cfg), config = cfg, mc_status = ?st,
               capabilities = Some (fetchCapabilities k (new_Client cfg))\<rparr>"
    from Inr None have "connect_try k cfg m =
        (Inr ?st, (sdk_does ?cs m)\<lparr>clients := AList.update (cfg_id cfg) ?v (clients (sdk_does ?cs m))\<rparr>)"
      by (simp add: connect_try_def Let_def)
    moreover have "record_ok ?v"
      by (simp add: record_ok_def)
    ultimately show ?thesis by blast
  qed
qed

lemma connect_shape:
  "connect k cfg m = (r, m') \<Longrightarrow>
   (m' = m \<and> cfg_id cfg \<in> tracked m) \<or>
   (\<exists>cs v. m' = (sdk_does cs m)\<lparr>clients := AList.update (cfg_id cfg) v (clients (sdk_does cs m))\<rparr> \<and>
           record_ok v)"
proof -
  assume a: "connect k cfg m = (r, m')"
  show ?thesis
  proof (cases "is_connected m (cfg_id cfg)")
    case True
    then obtain mc where "map_of (clients m) (cfg_id cfg) = Some mc" "status (mc_status mc) = Connected"
      by (auto simp: is_connected_def split: option.splits)
    with a have "m' = m \<and> cfg_id cfg \<in> tracked m"
      by (auto simp: connect_def tracked_def dest: map_of_SomeD intro: rev_image_eqI)
    then show ?thesis by blast
  next
    case False
    then have c: "connect k cfg m = connect_catch cfg (connect_try k cfg m)"
      by (auto simp: connect_def is_connected_def split: option.splits)
    from connect_try_cases [of k cfg m] show ?thesis
    proof (elim disjE exE conjE)
      fix e cs
      assume "connect_try k cfg m = (Inl e, sdk_does cs m)"
      with a c have "m' = (sdk_does cs m)\<lparr>clients := AList.update (cfg_id cfg)
          \<lparr>client = None, config = cfg,
           mc_status = \<lparr>serverId = cfg_id cfg, status = Error, error = Some (error_message e),
                        lastConnected = None\<rparr>,
           capabilities = None\<rparr> (clients (sdk_does cs m))\<rparr>"
        by (simp add: connect_catch_def Let_def)
      moreover have "record_ok \<lparr>client = None, config = cfg,
           mc_status = \<lparr>serverId = cfg_id cfg, status = Error, error = Some (error_message e),
                        lastConnected = None\<rparr>,
           capabilities = None\<rparr>"
        by (simp add: record_ok_def)
      ultimately show ?thesis by blast
    next
      fix st cs v
      assume "connect_try k cfg m =
       (Inr st, (sdk_does cs m)\<lparr>clients := AList.update (cfg_id cfg) v (clients (sdk_does cs m))\<rparr>)"
        and "record_ok v"
      with a c show ?thesis
        by (auto simp: connect_catch_def)
    qed
  qed
qed

lemma disconnect_shape:
  "disconnect k sid m = (r, m') \<Longrightarrow>
   (m' = m \<and> sid \<notin> tracked m) \<or>
   (\<exists>cs mc. map_of (clients m) sid = Some mc \<and>
      m' = (sdk_does cs m)\<lparr>clients := AList.update sid
              (mc\<lparr>mc_status := disconnected_status sid, capabilities := None\<rparr>)
              (clients (sdk_does cs m))\<rparr>)"
proof (cases "map_of (clients m) sid")
  case None
  assume "disconnect k sid m = (r, m')"
  with None have "m' = m"
    by (simp add: disconnect_def)
  moreover from None have "sid \<notin> tracked m"
    by (simp add: tracked_def map_of_eq_None_iff)
  ultimately show ?thesis by blast
next
  case (Some mc)
  assume a: "disconnect k sid m = (r, m')"
  have "\<exists>cs. (case client mc of
                      Some c \<Rightarrow>
                        if status (mc_status mc) = Connected
                        then (case client_close k c of
                                None \<Rightarrow> sdk_does [Close c] m
                              | Some e \<Rightarrow> sdk_does [Close c] m)
                        else m
                    | None \<Rightarrow> m) = sdk_does cs m"
  proof -
    have "m = sdk_does [] m" by (simp add: sdk_does_def)
    then show ?thesis by (auto split: option.splits)
  qed
  then obtain cs where "(case client mc of
                      Some c \<Rightarrow>
                        if status (mc_status mc) = Connected
                        then (case client_close k c of
                                None \<Rightarrow> sdk_does [Close c] m
                              | Some e \<Rightarrow> sdk_does [Close c] m)
                        else m
                    | None \<Rightarrow> m) = sdk_does cs m" ..
  with a Some show ?thesis
    by (auto simp: disconnect_def Let_def)
qed

lemma well_formed_sdk_does [simp]: "well_formed (sdk_does cs m) = well_formed m"
  by (simp add: well_formed_def) (simp add: sdk_does_def)

lemma well_formed_update:
  "well_formed m \<Longrightarrow> record_ok v \<Longrightarrow> well_formed (m\<lparr>clients := AList.update sid v (clients m)\<rparr>)"
  using records_ok_update [of m v sid]
  by (simp add: well_formed_def distinct_update)

lemma tracked_update [simp]:
  "tracked (m\<lparr>clients := AList.update sid v (clients m)\<rparr>) = insert sid (tracked m)"
  by (simp add: tracked_def dom_update)

lemma well_formed_connect: "well_formed m \<Longrightarrow> well_formed (snd (connect k cfg m))"
  using connect_shape [of k cfg m "fst (connect k cfg m)" "snd (connect k cfg m)"]
  by (auto intro!: well_formed_update)


lemma record_ok_disconnected:
  "record_ok (mc\<lparr>mc_status := disconnected_status sid, capabilities := None\<rparr>)"
  by (simp add: record_ok_def disconnected_status_def)

lemma well_formed_disconnect: "well_formed m \<Longrightarrow> well_formed (snd (disconnect k sid m))"
  using disconnect_shape [of k sid m "fst (disconnect k sid m)" "snd (disconnect k sid m)"]
  by (auto intro!: well_formed_update record_ok_disconnected)


lemma well_formed_disconnect_each:
  "well_formed m \<Longrightarrow> well_formed (snd (disconnect_each k sids m))"
proof (induction sids arbitrary: m)
  case Nil
  then show ?case by simp
next
  case (Cons sid sids)
  from Cons.prems have "well_formed (snd (disconnect k sid m))"
    by (rule well_formed_disconnect)
  then have "well_formed (snd (disconnect_each k sids (snd (disconnect k sid m))))"
    by (rule Cons.IH)
  then show ?case
    by (simp add: split_beta)
qed


lemma snd_disconnectAll: "snd (disconnectAll k m) = snd (disconnect_each k (map fst (clients m)) m)"
  by (simp add: disconnectAll_def split_beta Let_def)

lemma snd_callTool: "\<exists>cs. snd (callTool k sid t a m) = sdk_does cs m"
proof -
  have "m = sdk_does [] m" by (simp add: sdk_does_def)
  then show ?thesis
    by (auto simp: callTool_def Let_def split: option.splits)
qed

lemma snd_getPrompt: "\<exists>cs. snd (getPrompt k sid p a m) = sdk_does cs m"
proof -
  have "m = sdk_does [] m" by (simp add: sdk_does_def)
  then show ?thesis
    by (auto simp: getPrompt_def split: option.splits)
qed

lemma snd_readResource: "\<exists>cs. snd (readResource k sid u m) = sdk_does cs m"
proof -
  have "m = sdk_does [] m" by (simp add: sdk_does_def)
  then show ?thesis
    by (auto simp: readResource_def split: option.splits)
qed

lemma well_formed_serve: "well_formed m \<Longrightarrow> well_formed (serve r m)"
proof (cases r)
  case (DoConnect k cfg)
  assume "well_formed m"
  with DoConnect show ?thesis by (simp add: well_formed_connect)
next
  case (DoDisconnect k sid)
  assume "well_formed m"
  with DoDisconnect show ?thesis by (simp add: well_formed_disconnect)
next
  case (DoDisconnectAll k)
  assume "well_formed m"
  with DoDisconnectAll show ?thesis by (simp add: snd_disconnectAll well_formed_disconnect_each)
next
  case (DoCallTool k sid t a)
  assume "well_formed m"
  with DoCallTool snd_callTool [of k sid t a m] show ?thesis by auto
next
  case (DoGetPrompt k sid p a)
  assume "well_formed m"
  with DoGetPrompt snd_getPrompt [of k sid p a m] show ?thesis by auto
next
  case (DoReadResource k sid u)
  assume "well_formed m"
  with DoReadResource snd_readResource [of k sid u m] show ?thesis by auto
qed


lemma well_formed_fold: "well_formed m \<Longrightarrow> well_formed (fold serve rs m)"
  by (induction rs arbitrary: m) (simp_all add: well_formed_serve)


lemma well_formed_history: "well_formed (history rs)"
  unfolding history_def
  by (rule well_formed_fold) (simp add: well_formed_def records_ok_def new_manager_def)


lemma tracked_iff: "sid \<in> tracked m \<longleftrightarrow> map_of (clients m) sid \<noteq> None"
  by (simp add: tracked_def map_of_eq_None_iff)


lemma history_one_connect: "history [DoConnect example_sdk example_config] = example_connected"
  by (simp add: history_def example_connected_def)



lemma connected_has_handle:
  "is_connected (history rs) sid \<Longrightarrow>
   \<exists>mc c. map_of (clients (history rs)) sid = Some mc \<and> status (mc_status mc) = Connected \<and>
          client mc = Some c"
proof -
  assume "is_connected (history rs) sid"
  then obtain mc where mc: "map_of (clients (history rs)) sid = Some mc"
      "status (mc_status mc) = Connected"
    by (auto simp: is_connected_def split: option.splits)
  with well_formed_history [of rs] have "client mc \<noteq> None"
    by (auto simp: well_formed_def records_ok_def record_ok_def)
  with mc show ?thesis by auto
qed

text \<open>
  Claim C3. For any manager, server id and request: when no record exists for the id or
  its status is not \<open>Connected\<close>, \<^verbatim>\<open>callTool\<close>, \<^verbatim>\<open>getPrompt\<close> and
  \<^verbatim>\<open>readResource\<close> reject with the "is not connected" error and leave the manager,
  its log of SDK calls included, as it was. When the record is connected, in any
  manager that calls on a fresh one can produce, it holds a handle; the request goes to
  that handle with the given name, arguments or uri (\<^verbatim>\<open>callTool\<close> passes an empty
  object when the arguments are omitted), and the outcome of the handle's call, result
  or rejection, is the outcome of the method.
\<close>

theorem invocation_needs_connection:
  "(\<not> is_connected m sid \<longrightarrow>
      callTool k sid t a m = (Inl (not_connected_error sid), m) \<and>
      getPrompt k sid p pa m = (Inl (not_connected_error sid), m) \<and>
      readResource k sid u m = (Inl (not_connected_error sid), m)) \<and>
   (is_connected (history rs) sid \<longrightarrow>
      (\<exists>mc c. map_of (clients (history rs)) sid = Some mc \<and> client mc = Some c \<and>
         callTool k sid t a (history rs) =
           (client_callTool k c t (case a of None \<Rightarrow> [] | Some given \<Rightarrow> given),
            sdk_does [CallTool c t (case a of None \<Rightarrow> [] | Some given \<Rightarrow> given)] (history rs)) \<and>
         getPrompt k sid p pa (history rs) =
           (client_getPrompt k c p pa, sdk_does [GetPrompt c p pa] (history rs)) \<and>
         readResource k sid u (history rs) =
           (client_readResource k c u, sdk_does [ReadResource c u] (history rs))))"
proof (intro conjI impI)
  assume "\<not> is_connected m sid"
  then show "callTool k sid t a m = (Inl (not_connected_error sid), m)"
    by (cases "map_of (clients m) sid") (simp_all add: callTool_def is_connected_def)
next
  assume "\<not> is_connected m sid"
  then show "getPrompt k sid p pa m = (Inl (not_connected_error sid), m)"
    by (cases "map_of (clients m) sid") (simp_all add: getPrompt_def is_connected_def)
next
  assume "\<not> is_connected m sid"
  then show "readResource k sid u m = (Inl (not_connected_error sid), m)"
    by (cases "map_of (clients m) sid") (simp_all add: readResource_def is_connected_def)
next
  assume "is_connected (history rs) sid"
  then obtain mc c where mc: "map_of (clients (history rs)) sid = Some mc"
      "status (mc_status mc) = Connected" "client mc = Some c"
    using connected_has_handle by blast
  then have "callTool k sid t a (history rs) =
           (client_callTool k c t (case a of None \<Rightarrow> [] | Some given \<Rightarrow> given),
            sdk_does [CallTool c t (case a of None \<Rightarrow> [] | Some given \<Rightarrow> given)] (history rs))"
    by (simp add: callTool_def Let_def)
  moreover from mc have "getPrompt k sid p pa (history rs) =
           (client_getPrompt k c p pa, sdk_does [GetPrompt c p pa] (history rs))"
    by (simp add: getPrompt_def)
  moreover from mc have "readResource k sid u (history rs) =
           (client_readResource k c u, sdk_does [ReadResource c u] (history rs))"
    by (simp add: readResource_def)
  ultimately show "\<exists>mc c. map_of (clients (history rs)) sid = Some mc \<and> client mc = Some c \<and>
         callTool k sid t a (history rs) =
           (client_callTool k c t (case a of None \<Rightarrow> [] | Some given \<Rightarrow> given),
            sdk_does [CallTool c t (case a of None \<Rightarrow> [] | Some given \<Rightarrow> given)] (history rs)) \<and>
         getPrompt k sid p pa (history rs) =
           (client_getPrompt k c p pa, sdk_does [GetPrompt c p pa] (history rs)) \<and>
         readResource k sid u (history rs) =
           (client_readResource k c u, sdk_does [ReadResource c u] (history rs))"
    using mc by blast
qed

theorem invocation_needs_connection_witness:
  "\<not> is_connected new_manager ''srv-1'' \<and>
   callTool example_sdk ''srv-1'' ''echo'' (Some [(''text'', JStr ''hi'')]) new_manager =
     (Inl (JsError ''Server srv-1 is not connected''), new_manager) \<and>
   is_connected (history [DoConnect example_sdk example_config]) ''srv-1'' \<and>
   fst (callTool example_sdk ''srv-1'' ''echo'' (Some [(''text'', JStr ''hi'')])
          (history [DoConnect example_sdk example_config])) =
     Inr (JObj [(''text'', JStr ''hi'')]) \<and>
   fst (getPrompt example_sdk ''srv-1'' ''greet'' None (history [DoConnect example_sdk example_config])) =
     Inl (JsError ''Method not found'')"
  using invocation_needs_connection [of new_manager "''srv-1''" example_sdk "''echo''"
      "Some [(''text'', JStr ''hi'')]" "''greet''" None "''file:///notes''"
      "[DoConnect example_sdk example_config]"]
  by (simp add: history_one_connect is_connected_def not_connected_error_def)
     (auto simp: example_connected_eq new_manager_def example_sdk_def)

text \<open>
  Claim C4. When \<^verbatim>\<open>connect\<close> reaches the capability queries (no connected record for
  the id, transport built, handshake accepted) and exactly one of the three queries is
  rejected, the stored snapshot has the empty list for that category and, for the other
  two, the returned entries in order, each reduced to the fields of \<^verbatim>\<open>MCPTool\<close>,
  \<^verbatim>\<open>MCPPrompt\<close> or \<^verbatim>\<open>MCPResource\<close>; \<^verbatim>\<open>connect\<close> resolves with status
  \<open>Connected\<close> and no error.
\<close>

theorem one_failed_capability_query:
  "\<not> is_connected m (cfg_id cfg) \<and> createTransport k cfg = Inr t \<and>
   client_connect k (new_Client cfg) t = None \<and>
   (listTools k (new_Client cfg) = Inl e \<and> listPrompts k (new_Client cfg) = Inr ps \<and>
      listResources k (new_Client cfg) = Inr rs \<and>
      caps = \<lparr>tools = [], prompts = map MCPPrompt.truncate ps, resources = map MCPResource.truncate rs\<rparr> \<or>
    listTools k (new_Client cfg) = Inr ts \<and> listPrompts k (new_Client cfg) = Inl e \<and>
      listResources k (new_Client cfg) = Inr rs \<and>
      caps = \<lparr>tools = map MCPTool.truncate ts, prompts = [], resources = map MCPResource.truncate rs\<rparr> \<or>
    listTools k (new_Client cfg) = Inr ts \<and> listPrompts k (new_Client cfg) = Inr ps \<and>
      listResources k (new_Client cfg) = Inl e \<and>
      caps = \<lparr>tools = map MCPTool.truncate ts, prompts = map MCPPrompt.truncate ps, resources = []\<rparr>) \<longrightarrow>
   fst (connect k cfg m) =
     Inr \<lparr>serverId = cfg_id cfg, status = Connected, error = None, lastConnected = Some (Date_now k)\<rparr> \<and>
   getCapabilities (snd (connect k cfg m)) (cfg_id cfg) = Some caps \<and>
   getStatus (snd (connect k cfg m)) (cfg_id cfg) =
     \<lparr>serverId = cfg_id cfg, status = Connected, error = None, lastConnected = Some (Date_now k)\<rparr>"
proof (intro impI)
  assume h: "\<not> is_connected m (cfg_id cfg) \<and> createTransport k cfg = Inr t \<and>
   client_connect k (new_Client cfg) t = None \<and>
   (listTools k (new_Client cfg) = Inl e \<and> listPrompts k (new_Client cfg) = Inr ps \<and>
      listResources k (new_Client cfg) = Inr rs \<and>
      caps = \<lparr>tools = [], prompts = map MCPPrompt.truncate ps, resources = map MCPResource.truncate rs\<rparr> \<or>
    listTools k (new_Client cfg) = Inr ts \<and> listPrompts k (new_Client cfg) = Inl e \<and>
      listResources k (new_Client cfg) = Inr rs \<and>
      caps = \<lparr>tools = map MCPTool.truncate ts, prompts = [], resources = map MCPResource.truncate rs\<rparr> \<or>
    listTools k (new_Client cfg) = Inr ts \<and> listPrompts k (new_Client cfg) = Inr ps \<and>
      listResources k (new_Client cfg) = Inl e \<and>
      caps = \<lparr>tools = map MCPTool.truncate ts, prompts = map MCPPrompt.truncate ps, resources = []\<rparr>)"
  then have c: "connect k cfg m = connect_catch cfg (connect_try k cfg m)"
    by (auto simp: connect_def is_connected_def split: option.splits)
  have tr: "MCPTool.truncate = (\<lambda>t. \<lparr>tool_name = tool_name t, tool_description = tool_description t,
                             inputSchema = inputSchema t\<rparr>)"
    "MCPPrompt.truncate = (\<lambda>p. \<lparr>prompt_name = prompt_name p, prompt_description = prompt_description p,
                             arguments = arguments p\<rparr>)"
    "MCPResource.truncate = (\<lambda>r. \<lparr>uri = uri r, resource_name = resource_name r,
                             resource_description = resource_description r, mimeType = mimeType r\<rparr>)"
    by (auto simp: MCPTool.truncate_def MCPPrompt.truncate_def MCPResource.truncate_def fun_eq_iff)
  from h have f: "fetchCapabilities k (new_Client cfg) = caps"
    by (auto simp: fetchCapabilities_def tr)
  from h have "connect_try k cfg m =
      (Inr \<lparr>serverId = cfg_id cfg, status = Connected, error = None, lastConnected = Some (Date_now k)\<rparr>,
       (sdk_does [NewTransport t, Handshake (new_Client cfg) t, ListTools (new_Client cfg),
                  ListPrompts (new_Client cfg), ListResources (new_Client cfg)] m)
         \<lparr>clients := AList.update (cfg_id cfg)
            \<lparr>client = Some (new_Client cfg), config = cfg,
             mc_status = \<lparr>serverId = cfg_id cfg, status = Connected, error = None,
                          lastConnected = Some (Date_now k)\<rparr>,
             capabilities = Some caps\<rparr>
            (clients (sdk_does [NewTransport t, Handshake (new_Client cfg) t, ListTools (new_Client cfg),
                  ListPrompts (new_Client cfg), ListResources (new_Client cfg)] m))\<rparr>)"
    by (simp add: connect_try_def Let_def f)
  then show "fst (connect k cfg m) =
     Inr \<lparr>serverId = cfg_id cfg, status = Connected, error = None, lastConnected = Some (Date_now k)\<rparr> \<and>
   getCapabilities (snd (connect k cfg m)) (cfg_id cfg) = Some caps \<and>
   getStatus (snd (connect k cfg m)) (cfg_id cfg) =
     \<lparr>serverId = cfg_id cfg, status = Connected, error = None, lastConnected = Some (Date_now k)\<rparr>"
    by (simp add: c connect_catch_def getCapabilities_def getStatus_def update_conv')
qed

theorem one_failed_capability_query_witness:
  "\<not> is_connected new_manager ''srv-1'' \<and>
   listPrompts example_sdk (new_Client example_config) = Inl (JsError ''Method not found'') \<and>
   fst (connect example_sdk example_config new_manager) =
     Inr \<lparr>serverId = ''srv-1'', status = Connected, error = None, lastConnected = Some 1700000000000\<rparr> \<and>
   getCapabilities (snd (connect example_sdk example_config new_manager)) ''srv-1'' =
     Some \<lparr>tools = [\<lparr>tool_name = ''echo'', tool_description = Some ''Echo the input'',
                      inputSchema = Some (JObj [])\<rparr>],
           prompts = [],
           resources = [\<lparr>uri = ''file:///notes'', resource_name = ''notes'',
                          resource_description = None, mimeType = Some ''text/plain''\<rparr>]\<rparr>"
  using one_failed_capability_query [of new_manager example_config example_sdk
      "StdioClientTransport (Some ''npx'') (Some [''server-files'']) None None"
      "JsError ''Method not found''" "[]" "[\<lparr>uri = ''file:///notes'', resource_name = ''notes'',
                                  resource_description = None, mimeType = Some ''text/plain'',
                                  resource_rest = JNull\<rparr>]"
      "\<lparr>tools = [\<lparr>tool_name = ''echo'', tool_description = Some ''Echo the input'',
                      inputSchema = Some (JObj [])\<rparr>],
           prompts = [],
           resources = [\<lparr>uri = ''file:///notes'', resource_name = ''notes'',
                          resource_description = None, mimeType = Some ''text/plain''\<rparr>]\<rparr>"
      "[\<lparr>tool_name = ''echo'', tool_description = Some ''Echo the input'',
                              inputSchema = Some (JObj []), tool_rest = JStr ''annotations''\<rparr>]"]
  by (simp add: is_connected_def new_manager_def createTransport_def example_sdk_def new_Client_def
      MCPTool.truncate_def MCPResource.truncate_def)
     (simp add: example_config_def)

subsection \<open>Disconnecting\<close>

lemma disconnect_untracked:
  "map_of (clients m) sid = None \<Longrightarrow> disconnect k sid m = (Inr (disconnected_status sid), m)"
  by (simp add: disconnect_def)

lemma disconnect_tracked:
  "map_of (clients m) sid = Some mc \<Longrightarrow>
   disconnect k sid m =
     (Inr (disconnected_status sid),
      \<lparr>clients = AList.update sid (as_disconnected sid mc) (clients m),
       calls = calls m @ closing mc\<rparr>)"
  by (cases "client mc"; cases "client_close k (the (client mc))")
     (simp_all add: disconnect_def Let_def sdk_does_def as_disconnected_def closing_def)

lemma fst_disconnect: "fst (disconnect k sid m) = Inr (disconnected_status sid)"
  by (cases "map_of (clients m) sid") (simp_all add: disconnect_untracked disconnect_tracked)

lemma keys_disconnect: "map fst (clients (snd (disconnect k sid m))) = map fst (clients m)"
proof (cases "map_of (clients m) sid")
  case None
  then show ?thesis by (simp add: disconnect_untracked)
next
  case (Some mc)
  then have "sid \<in> fst ` set (clients m)"
    by (auto dest: map_of_SomeD intro: rev_image_eqI)
  with Some show ?thesis
    by (simp add: disconnect_tracked update_keys)
qed

lemma lookup_disconnect:
  "map_of (clients (snd (disconnect k sid m))) x =
    (if x = sid then map_option (as_disconnected sid) (map_of (clients m) sid)
     else map_of (clients m) x)"
  by (cases "map_of (clients m) sid") (simp_all add: disconnect_untracked disconnect_tracked update_conv')

lemma calls_disconnect:
  "calls (snd (disconnect k sid m)) =
    calls m @ (case map_of (clients m) sid of None \<Rightarrow> [] | Some mc \<Rightarrow> closing mc)"
  by (cases "map_of (clients m) sid") (simp_all add: disconnect_untracked disconnect_tracked)

lemma as_disconnected_idem [simp]:
  "as_disconnected sid (as_disconnected sid mc) = as_disconnected sid mc"
  by (simp add: as_disconnected_def)

lemma closing_as_disconnected [simp]: "closing (as_disconnected sid mc) = []"
  by (simp add: closing_def as_disconnected_def disconnected_status_def split: option.splits)

lemma disconnect_twice:
  "disconnect k2 sid (snd (disconnect k sid m)) = (Inr (disconnected_status sid), snd (disconnect k sid m))"
proof (cases "map_of (clients m) sid")
  case None
  then show ?thesis by (simp add: disconnect_untracked)
next
  case (Some mc)
  let ?m1 = "snd (disconnect k sid m)"
  have l: "map_of (clients ?m1) sid = Some (as_disconnected sid mc)"
    by (simp add: lookup_disconnect Some)
  have "AList.update sid (as_disconnected sid (as_disconnected sid mc)) (clients ?m1) = clients ?m1"
    using l by (simp add: update_triv)
  then show ?thesis
    by (simp add: disconnect_tracked [OF l])
qed

text \<open>
  Claim C6, as stated, at a connected record: after \<^verbatim>\<open>disconnect\<close> the record still
  holds the client handle it had; only its status and capability snapshot are replaced.
\<close>

theorem disconnect_result_counterexample:
  "is_connected example_connected ''srv-1'' \<and>
   map_of (clients (snd (disconnect example_sdk ''srv-1'' example_connected))) ''srv-1'' =
     Some \<lparr>client = Some \<lparr>client_name = ''mcp-client-srv-1'', client_version = ''1.0.0''\<rparr>,
           config = example_config,
           mc_status = \<lparr>serverId = ''srv-1'', status = Disconnected, error = None, lastConnected = None\<rparr>,
           capabilities = None\<rparr>"
  by (simp add: example_connected_eq is_connected_def disconnect_def Let_def sdk_does_def
      disconnected_status_def example_sdk_def)

text \<open>
  Claim C6, amended. On an id without a record, \<^verbatim>\<open>disconnect\<close> resolves with the
  synthesized \<open>Disconnected\<close> status and changes nothing. On an id with a record it
  calls \<^verbatim>\<open>close\<close> exactly when the handle is non-null and the status is \<open>Connected\<close>,
  resolves with the \<open>Disconnected\<close> status whatever \<^verbatim>\<open>close\<close> does, and leaves in
  place of the record the same record with status \<open>Disconnected\<close> and a null
  capability snapshot, its client handle and configuration kept; the order of the keys
  is unchanged. A second \<^verbatim>\<open>disconnect\<close> resolves with the same status and changes
  nothing more.
\<close>

theorem disconnect_result:
  "(map_of (clients m) sid = None \<longrightarrow> disconnect k sid m = (Inr (disconnected_status sid), m)) \<and>
   (map_of (clients m) sid = Some mc \<longrightarrow>
      fst (disconnect k sid m) = Inr (disconnected_status sid) \<and>
      map_of (clients (snd (disconnect k sid m))) sid =
        Some (mc\<lparr>mc_status := disconnected_status sid, capabilities := None\<rparr>) \<and>
      map fst (clients (snd (disconnect k sid m))) = map fst (clients m) \<and>
      calls (snd (disconnect k sid m)) =
        calls m @ (case client mc of
                     Some c \<Rightarrow> if status (mc_status mc) = Connected then [Close c] else []
                   | None \<Rightarrow> [])) \<and>
   disconnect k2 sid (snd (disconnect k sid m)) =
     (Inr (disconnected_status sid), snd (disconnect k sid m))"
proof (intro conjI impI)
  assume "map_of (clients m) sid = None"
  then show "disconnect k sid m = (Inr (disconnected_status sid), m)"
    by (rule disconnect_untracked)
next
  show "fst (disconnect k sid m) = Inr (disconnected_status sid)"
    by (rule fst_disconnect)
next
  assume "map_of (clients m) sid = Some mc"
  then show "map_of (clients (snd (disconnect k sid m))) sid =
        Some (mc\<lparr>mc_status := disconnected_status sid, capabilities := None\<rparr>)"
    by (simp add: lookup_disconnect as_disconnected_def)
next
  show "map fst (clients (snd (disconnect k sid m))) = map fst (clients m)"
    by (rule keys_disconnect)
next
  assume "map_of (clients m) sid = Some mc"
  then show "calls (snd (disconnect k sid m)) =
        calls m @ (case client mc of
                     Some c \<Rightarrow> if status (mc_status mc) = Connected then [Close c] else []
                   | None \<Rightarrow> [])"
    by (simp add: calls_disconnect closing_def)
next
  show "disconnect k2 sid (snd (disconnect k sid m)) =
     (Inr (disconnected_status sid), snd (disconnect k sid m))"
    by (rule disconnect_twice)
qed

theorem disconnect_result_witness:
  "map_of (clients new_manager) ''srv-9'' = None \<and>
   disconnect example_sdk ''srv-9'' new_manager =
     (Inr \<lparr>serverId = ''srv-9'', status = Disconnected, error = None, lastConnected = None\<rparr>, new_manager) \<and>
   map_of (clients example_connected) ''srv-1'' \<noteq> None \<and>
   client_close example_sdk \<lparr>client_name = ''mcp-client-srv-1'', client_version = ''1.0.0''\<rparr> \<noteq> None \<and>
   fst (disconnect example_sdk ''srv-1'' example_connected) =
     Inr \<lparr>serverId = ''srv-1'', status = Disconnected, error = None, lastConnected = None\<rparr> \<and>
   getCapabilities (snd (disconnect example_sdk ''srv-1'' example_connected)) ''srv-1'' = None \<and>
   calls (snd (disconnect example_sdk ''srv-1'' example_connected)) =
     calls example_connected @ [Close \<lparr>client_name = ''mcp-client-srv-1'', client_version = ''1.0.0''\<rparr>]"
  using disconnect_result [of new_manager "''srv-9''" example_sdk
      "\<lparr>client = Some \<lparr>client_name = ''mcp-client-srv-1'', client_version = ''1.0.0''\<rparr>,
         config = example_config,
         mc_status = \<lparr>serverId = ''srv-1'', status = Connected, error = None,
                      lastConnected = Some 1700000000000\<rparr>,
         capabilities = Some \<lparr>tools = [\<lparr>tool_name = ''echo'', tool_description = Some ''Echo the input'',
                                          inputSchema = Some (JObj [])\<rparr>],
                               prompts = [],
                               resources = [\<lparr>uri = ''file:///notes'', resource_name = ''notes'',
                                  resource_description = None, mimeType = Some ''text/plain''\<rparr>]\<rparr>\<rparr>" example_sdk]
    disconnect_result [of example_connected "''srv-1''" example_sdk
      "\<lparr>client = Some \<lparr>client_name = ''mcp-client-srv-1'', client_version = ''1.0.0''\<rparr>,
         config = example_config,
         mc_status = \<lparr>serverId = ''srv-1'', status = Connected, error = None,
                      lastConnected = Some 1700000000000\<rparr>,
         capabilities = Some \<lparr>tools = [\<lparr>tool_name = ''echo'', tool_description = Some ''Echo the input'',
                                          inputSchema = Some (JObj [])\<rparr>],
                               prompts = [],
                               resources = [\<lparr>uri = ''file:///notes'', resource_name = ''notes'',
                                  resource_description = None, mimeType = Some ''text/plain''\<rparr>]\<rparr>\<rparr>" example_sdk]
  by (simp add: disconnected_status_def getCapabilities_def)
     (simp add: new_manager_def example_connected_eq example_sdk_def)

lemma fst_disconnect_each:
  "fst (disconnect_each k sids m) = map (\<lambda>sid. Inr (disconnected_status sid)) sids"
  by (induction sids arbitrary: m) (simp_all add: split_beta fst_disconnect)

lemma Promise_all_fulfilled: "Promise_all (map Inr xs) = Inr xs"
  by (induction xs) simp_all

lemma keys_disconnect_each:
  "map fst (clients (snd (disconnect_each k sids m))) = map fst (clients m)"
  by (induction sids arbitrary: m) (simp_all add: split_beta keys_disconnect)

lemma lookup_disconnect_each:
  "map_of (clients (snd (disconnect_each k sids m))) x =
    (if x \<in> set sids then map_option (as_disconnected x) (map_of (clients m) x)
     else map_of (clients m) x)"
proof (induction sids arbitrary: m)
  case Nil
  then show ?case by simp
next
  case (Cons sid sids)
  show ?case
    by (cases "map_of (clients m) sid")
       (simp_all add: split_beta Cons.IH lookup_disconnect option.map_comp comp_def)
qed

lemma calls_disconnect_each:
  "distinct sids \<Longrightarrow>
   calls (snd (disconnect_each k sids m)) =
     calls m @ concat (map (\<lambda>sid. case map_of (clients m) sid of None \<Rightarrow> [] | Some mc \<Rightarrow> closing mc) sids)"
proof (induction sids arbitrary: m)
  case Nil
  then show ?case by simp
next
  case (Cons sid sids)
  let ?m1 = "snd (disconnect k sid m)"
  from Cons.prems have d: "distinct sids" and n: "sid \<notin> set sids"
    by simp_all
  have same: "map (\<lambda>x. case map_of (clients ?m1) x of None \<Rightarrow> [] | Some mc \<Rightarrow> closing mc) sids =
              map (\<lambda>x. case map_of (clients m) x of None \<Rightarrow> [] | Some mc \<Rightarrow> closing mc) sids"
    using n by (intro map_cong refl) (auto simp: lookup_disconnect)
  show ?case
    by (simp add: split_beta Cons.IH [OF d] same calls_disconnect)
qed

lemma by_key:
  "distinct (map fst al) \<Longrightarrow>
   map (\<lambda>sid. f sid (map_of al sid)) (map fst al) = map (\<lambda>(sid, mc). f sid (Some mc)) al"
proof -
  assume d: "distinct (map fst al)"
  have "\<And>p. p \<in> set al \<Longrightarrow> map_of al (fst p) = Some (snd p)"
    using d by (simp add: map_of_is_SomeI)
  then show ?thesis
    by (simp add: comp_def split_beta cong: map_cong)
qed

text \<open>
  Claim C8. \<^verbatim>\<open>disconnectAll\<close> always resolves. It calls \<^verbatim>\<open>close\<close> once for every
  connected record with a handle, in key order, and keeps the keys; afterwards
  \<^verbatim>\<open>getAllStatuses\<close> lists the \<open>Disconnected\<close> status for every tracked id,
  \<^verbatim>\<open>getStatus\<close> gives it for each of them, and \<^verbatim>\<open>getCapabilities\<close> is null for
  every id. The keys of a \<^verbatim>\<open>Map\<close> are distinct, which is the hypothesis.
\<close>

theorem disconnectAll_result:
  "distinct (map fst (clients m)) \<longrightarrow>
   fst (disconnectAll k m) = Inr () \<and>
   map fst (clients (snd (disconnectAll k m))) = map fst (clients m) \<and>
   getAllStatuses (snd (disconnectAll k m)) = map disconnected_status (map fst (clients m)) \<and>
   (\<forall>sid. getCapabilities (snd (disconnectAll k m)) sid = None) \<and>
   (\<forall>sid \<in> tracked m. getStatus (snd (disconnectAll k m)) sid = disconnected_status sid) \<and>
   calls (snd (disconnectAll k m)) =
     calls m @ concat (map (\<lambda>(sid, mc). case client mc of
                                            Some c \<Rightarrow> if status (mc_status mc) = Connected then [Close c] else []
                                          | None \<Rightarrow> []) (clients m))"
proof (intro impI conjI allI ballI)
  let ?m1 = "snd (disconnectAll k m)"
  let ?keys = "map fst (clients m)"
  have s: "?m1 = snd (disconnect_each k ?keys m)"
    by (rule snd_disconnectAll)
  have look: "map_of (clients ?m1) x = map_option (as_disconnected x) (map_of (clients m) x)" for x
  proof (cases "map_of (clients m) x")
    case None
    then show ?thesis
      by (simp add: s lookup_disconnect_each)
  next
    case (Some mc)
    then have "x \<in> fst ` set (clients m)"
      by (auto dest: map_of_SomeD intro: rev_image_eqI)
    then show ?thesis
      by (simp add: s lookup_disconnect_each)
  qed
  show "fst (disconnectAll k m) = Inr ()"
    using Promise_all_fulfilled [of "map disconnected_status ?keys"]
    by (simp add: disconnectAll_def Let_def split_beta fst_disconnect_each comp_def)
  show keys: "map fst (clients ?m1) = ?keys"
    by (simp add: s keys_disconnect_each)
  show "getCapabilities ?m1 sid = None" for sid
    by (cases "map_of (clients m) sid") (simp_all add: getCapabilities_def look as_disconnected_def)
  show "getStatus ?m1 sid = disconnected_status sid" if "sid \<in> tracked m" for sid
  proof -
    from that obtain mc where "map_of (clients m) sid = Some mc"
      using tracked_iff [of sid m] by auto
    then show ?thesis
      by (simp add: getStatus_def look as_disconnected_def)
  qed
  assume d: "distinct (map fst (clients m))"
  then have d1: "distinct (map fst (clients ?m1))"
    by (simp add: keys)
  have "getAllStatuses ?m1 =
        map (\<lambda>sid. case map_of (clients ?m1) sid of None \<Rightarrow> disconnected_status sid
                    | Some mc \<Rightarrow> mc_status mc) (map fst (clients ?m1))"
    using by_key [OF d1, of "\<lambda>sid r. case r of None \<Rightarrow> disconnected_status sid | Some mc \<Rightarrow> mc_status mc"]
    by (simp add: getAllStatuses_def comp_def split_beta)
  also have "\<dots> = map disconnected_status ?keys"
    unfolding keys
    by (intro map_cong refl) (auto simp: look as_disconnected_def split: option.splits)
  finally show "getAllStatuses ?m1 = map disconnected_status ?keys" .
  have "calls ?m1 =
      calls m @ concat (map (\<lambda>sid. case map_of (clients m) sid of None \<Rightarrow> [] | Some mc \<Rightarrow> closing mc) ?keys)"
    unfolding s by (rule calls_disconnect_each [OF d])
  also have "map (\<lambda>sid. case map_of (clients m) sid of None \<Rightarrow> [] | Some mc \<Rightarrow> closing mc) ?keys =
      map (\<lambda>(sid, mc). closing mc) (clients m)"
    using by_key [OF d, of "\<lambda>sid r. case r of None \<Rightarrow> [] | Some mc \<Rightarrow> closing mc"]
    by simp
  finally show "calls ?m1 =
     calls m @ concat (map (\<lambda>(sid, mc). case client mc of
                                            Some c \<Rightarrow> if status (mc_status mc) = Connected then [Close c] else []
                                          | None \<Rightarrow> []) (clients m))"
    by (simp add: closing_def)
qed

lemma three_connected_statuses:
  "map (\<lambda>(sid, mc). (sid, status (mc_status mc), capabilities mc \<noteq> None)) (clients three_connected) =
    [(''srv-1'', Connected, True), (''srv-2'', Connected, True), (''srv-3'', Connected, True)]"
  by (simp add: three_connected_def history_def connect_defs example_defs Let_def)

lemma three_connected_keys: "map fst (clients three_connected) = [''srv-1'', ''srv-2'', ''srv-3'']"
  using arg_cong [OF three_connected_statuses, of "map fst"]
  by (simp add: comp_def split_beta)

theorem disconnectAll_result_witness:
  "distinct (map fst (clients three_connected)) \<and>
   map status (getAllStatuses three_connected) = [Connected, Connected, Connected] \<and>
   ''srv-2'' \<in> tracked three_connected \<and>
   fst (disconnectAll example_sdk three_connected) = Inr () \<and>
   getAllStatuses (snd (disconnectAll example_sdk three_connected)) =
     [\<lparr>serverId = ''srv-1'', status = Disconnected, error = None, lastConnected = None\<rparr>,
      \<lparr>serverId = ''srv-2'', status = Disconnected, error = None, lastConnected = None\<rparr>,
      \<lparr>serverId = ''srv-3'', status = Disconnected, error = None, lastConnected = None\<rparr>] \<and>
   getCapabilities (snd (disconnectAll example_sdk three_connected)) ''srv-1'' = None \<and>
   getCapabilities (snd (disconnectAll example_sdk three_connected)) ''srv-2'' = None \<and>
   getCapabilities (snd (disconnectAll example_sdk three_connected)) ''srv-3'' = None \<and>
   getStatus (snd (disconnectAll example_sdk three_connected)) ''srv-2'' =
     \<lparr>serverId = ''srv-2'', status = Disconnected, error = None, lastConnected = None\<rparr>"
proof -
  have st: "map status (getAllStatuses three_connected) = [Connected, Connected, Connected]"
    using arg_cong [OF three_connected_statuses, of "map (\<lambda>p. fst (snd p))"]
    by (simp add: getAllStatuses_def comp_def split_beta)
  have tr: "''srv-2'' \<in> tracked three_connected"
    using arg_cong [OF three_connected_keys, of set]
    by (simp add: tracked_def)
  show ?thesis
    using disconnectAll_result [of three_connected example_sdk] st tr
    by (simp add: three_connected_keys disconnected_status_def)
qed

section \<open>Properties of the storage service and of the message encoding\<close>

lemma map_enumerate_nth:
  "i < length xs \<Longrightarrow> map (\<lambda>(i, x). f i x) (enumerate 0 xs) ! i = f i (xs ! i)"
  by (simp add: nth_enumerate_eq)

lemma getServers_saveServers:
  "storage_accepts b srvs \<Longrightarrow> getServers b (saveServers b srvs ls) = srvs"
  by (auto simp: storage_accepts_def getServers_def saveServers_def split: sum.splits)

text \<open>
  Claim C9, as stated, in a browser whose storage quota is used up: one configuration
  is stored, one is exported, \<^verbatim>\<open>importServers\<close> returns two entries, but
  \<^verbatim>\<open>setItem\<close> throws, \<^verbatim>\<open>saveServers\<close> catches it, and the stored set still has one
  entry.
\<close>

lemma saveServers_refused: "write_refused b srvs \<Longrightarrow> saveServers b srvs ls = ls"
  by (auto simp: write_refused_def saveServers_def split: sum.splits)

lemma getServers_quota: "getServers quota_browser example_localStorage = example_stored"
  by (simp add: getServers_def quota_browser_def example_browser_def example_localStorage_def STORAGE_KEY_def)

lemma import_quota:
  "importServers quota_browser (exportServers quota_browser example_localStorage) (Some True)
     example_localStorage = (example_merged, example_localStorage)"
proof -
  have neq: "example_stored \<noteq> example_merged"
    by (simp add: example_stored_def example_merged_def)
  have "fst (importServers quota_browser (exportServers quota_browser example_localStorage) (Some True)
          example_localStorage) = example_merged"
    by (simp add: importServers_def exportServers_def getServers_quota Let_def enumerate_eq_zip)
       (simp add: example_stored_def example_merged_def quota_browser_def example_browser_def
          example_config_def)
  moreover have "saveServers quota_browser example_merged example_localStorage = example_localStorage"
    using neq by (simp add: saveServers_def quota_browser_def example_browser_def)
  ultimately show ?thesis
    by (simp add: importServers_def Let_def prod_eq_iff)
qed

theorem import_stored_set_counterexample:
  "length (getServers quota_browser example_localStorage) = 1 \<and>
   length (export_servers (exportServers quota_browser example_localStorage)) = 1 \<and>
   length (fst (importServers quota_browser (exportServers quota_browser example_localStorage) (Some True)
                  example_localStorage)) = 2 \<and>
   length (getServers quota_browser
             (snd (importServers quota_browser (exportServers quota_browser example_localStorage) (Some True)
                     example_localStorage))) = 1"
proof -
  have "length (export_servers (exportServers quota_browser example_localStorage)) = 1"
    by (simp add: exportServers_def getServers_quota example_stored_def)
  moreover have "length example_merged = 2" and "length example_stored = 1"
    by (simp_all add: example_merged_def example_stored_def)
  ultimately show ?thesis
    by (simp only: import_quota getServers_quota fst_conv snd_conv)
qed

text \<open>
  Claim C9, amended. Let \<open>N\<close> configurations be exported (from any browser and store)
  and let the importing browser hold \<open>M\<close>. \<^verbatim>\<open>importServers\<close> with \<^verbatim>\<open>merge\<close> true,
  given or by default, returns \<open>M + N\<close> entries: the \<open>M\<close> stored ones unchanged, then
  one entry per exported configuration with the exported fields, the id that
  \<^verbatim>\<open>generateId\<close> returned for it and the time of the import as \<^verbatim>\<open>createdAt\<close> and
  \<^verbatim>\<open>updatedAt\<close>; nothing of the source entry's id or timestamps enters, as the
  exported shape has no such fields. When the browser stores the list and gives it back
  (\<open>storage_accepts\<close>), the stored set read afterwards is that list; when the browser
  does not take the write (\<open>write_refused\<close>), the store is left as it was and the
  stored set keeps its \<open>M\<close> entries.
\<close>

theorem import_merges_fresh_entries:
  "importServers b (exportServers b0 ls0) (Some True) ls = importServers b (exportServers b0 ls0) None ls \<and>
   length (fst (importServers b (exportServers b0 ls0) (Some True) ls)) =
     length (getServers b0 ls0) + length (getServers b ls) \<and>
   take (length (getServers b ls)) (fst (importServers b (exportServers b0 ls0) (Some True) ls)) =
     getServers b ls \<and>
   (\<forall>i < length (getServers b0 ls0).
      fst (importServers b (exportServers b0 ls0) (Some True) ls) ! (length (getServers b ls) + i) =
        \<lparr>name = name (getServers b0 ls0 ! i), transportType = transportType (getServers b0 ls0 ! i),
         stdioConfig = stdioConfig (getServers b0 ls0 ! i), httpConfig = httpConfig (getServers b0 ls0 ! i),
         enabled = enabled (getServers b0 ls0 ! i),
         cfg_id = generateId b i, createdAt = time_now b, updatedAt = time_now b\<rparr>) \<and>
   (storage_accepts b (fst (importServers b (exportServers b0 ls0) (Some True) ls)) \<longrightarrow>
      getServers b (snd (importServers b (exportServers b0 ls0) (Some True) ls)) =
        fst (importServers b (exportServers b0 ls0) (Some True) ls)) \<and>
   (write_refused b (fst (importServers b (exportServers b0 ls0) (Some True) ls)) \<longrightarrow>
      snd (importServers b (exportServers b0 ls0) (Some True) ls) = ls \<and>
      getServers b (snd (importServers b (exportServers b0 ls0) (Some True) ls)) = getServers b ls)"
proof -
  let ?src = "getServers b0 ls0"
  let ?old = "getServers b ls"
  let ?new = "map (\<lambda>(i, server). imported_entry b i server) (enumerate 0 (export_servers (exportServers b0 ls0)))"
  have imp: "importServers b (exportServers b0 ls0) (Some True) ls = (?old @ ?new, saveServers b (?old @ ?new) ls)"
    by (simp add: importServers_def Let_def imported_entry_def)
  have dflt: "importServers b (exportServers b0 ls0) None ls = (?old @ ?new, saveServers b (?old @ ?new) ls)"
    by (simp add: importServers_def Let_def imported_entry_def)
  have len: "length ?new = length ?src"
    by (simp add: exportServers_def)
  have nth: "?new ! i =
        \<lparr>name = name (?src ! i), transportType = transportType (?src ! i),
         stdioConfig = stdioConfig (?src ! i), httpConfig = httpConfig (?src ! i),
         enabled = enabled (?src ! i),
         cfg_id = generateId b i, createdAt = time_now b, updatedAt = time_now b\<rparr>" if "i < length ?src" for i
    using that map_enumerate_nth [of i "export_servers (exportServers b0 ls0)" "imported_entry b"]
    by (simp add: exportServers_def imported_entry_def)
  have at: "(?old @ ?new) ! (length ?old + i) = ?new ! i" for i
    by (rule nth_append_length_plus)
  have c1: "importServers b (exportServers b0 ls0) (Some True) ls = importServers b (exportServers b0 ls0) None ls"
    by (simp only: imp dflt)
  have c2: "length (fst (importServers b (exportServers b0 ls0) (Some True) ls)) = length ?src + length ?old"
    by (simp only: imp fst_conv length_append len add.commute)
  have c3: "take (length ?old) (fst (importServers b (exportServers b0 ls0) (Some True) ls)) = ?old"
    by (simp only: imp fst_conv) simp
  have c4: "\<forall>i < length ?src.
      fst (importServers b (exportServers b0 ls0) (Some True) ls) ! (length ?old + i) =
        \<lparr>name = name (?src ! i), transportType = transportType (?src ! i),
         stdioConfig = stdioConfig (?src ! i), httpConfig = httpConfig (?src ! i),
         enabled = enabled (?src ! i),
         cfg_id = generateId b i, createdAt = time_now b, updatedAt = time_now b\<rparr>"
  proof (intro allI impI)
    fix i
    assume "i < length ?src"
    then show "fst (importServers b (exportServers b0 ls0) (Some True) ls) ! (length ?old + i) =
        \<lparr>name = name (?src ! i), transportType = transportType (?src ! i),
         stdioConfig = stdioConfig (?src ! i), httpConfig = httpConfig (?src ! i),
         enabled = enabled (?src ! i),
         cfg_id = generateId b i, createdAt = time_now b, updatedAt = time_now b\<rparr>"
      using nth [of i] by (simp only: imp fst_conv at)
  qed
  have c5: "storage_accepts b (fst (importServers b (exportServers b0 ls0) (Some True) ls)) \<longrightarrow>
      getServers b (snd (importServers b (exportServers b0 ls0) (Some True) ls)) =
        fst (importServers b (exportServers b0 ls0) (Some True) ls)"
    by (simp only: imp fst_conv snd_conv) (simp add: getServers_saveServers)
  have "write_refused b (fst (importServers b (exportServers b0 ls0) (Some True) ls)) \<longrightarrow>
      snd (importServers b (exportServers b0 ls0) (Some True) ls) = ls"
    by (simp only: imp fst_conv snd_conv) (simp add: saveServers_refused)
  then have c6: "write_refused b (fst (importServers b (exportServers b0 ls0) (Some True) ls)) \<longrightarrow>
      snd (importServers b (exportServers b0 ls0) (Some True) ls) = ls \<and>
      getServers b (snd (importServers b (exportServers b0 ls0) (Some True) ls)) = getServers b ls"
    by simp
  from c1 c2 c3 c4 c5 c6 show ?thesis
    by (intro conjI)
qed

theorem import_merges_fresh_entries_witness:
  "length (getServers example_browser example_localStorage) = 1 \<and>
   storage_accepts example_browser example_merged \<and>
   fst (importServers example_browser (exportServers example_browser example_localStorage) (Some True)
          example_localStorage) = example_merged \<and>
   cfg_id (example_merged ! 1) = ''id-0'' \<and> cfg_id (example_merged ! 0) = ''srv-1'' \<and>
   createdAt (example_merged ! 1) = 1700000000500 \<and>
   getServers example_browser
     (snd (importServers example_browser (exportServers example_browser example_localStorage) (Some True)
             example_localStorage)) = example_merged \<and>
   write_refused quota_browser example_merged \<and>
   snd (importServers quota_browser (exportServers quota_browser example_localStorage) (Some True)
          example_localStorage) = example_localStorage"
proof -
  have g: "getServers example_browser example_localStorage = example_stored"
    by (simp add: getServers_def example_browser_def example_localStorage_def STORAGE_KEY_def)
  have neq: "example_stored \<noteq> example_merged"
    by (simp add: example_stored_def example_merged_def)
  have a: "storage_accepts example_browser example_merged"
    using neq by (simp add: storage_accepts_def example_browser_def STORAGE_VERSION_def)
  have f: "fst (importServers example_browser (exportServers example_browser example_localStorage) (Some True)
          example_localStorage) = example_merged"
    by (simp add: importServers_def exportServers_def g Let_def enumerate_eq_zip)
       (simp add: example_stored_def example_merged_def example_browser_def example_config_def)
  have ids: "cfg_id (example_merged ! 1) = ''id-0'' \<and> cfg_id (example_merged ! 0) = ''srv-1'' \<and>
      createdAt (example_merged ! 1) = 1700000000500"
    by (simp add: example_merged_def example_config_def)
  have "storage_accepts example_browser
          (fst (importServers example_browser (exportServers example_browser example_localStorage) (Some True)
                  example_localStorage)) \<longrightarrow>
        getServers example_browser
          (snd (importServers example_browser (exportServers example_browser example_localStorage) (Some True)
                  example_localStorage)) =
        fst (importServers example_browser (exportServers example_browser example_localStorage) (Some True)
               example_localStorage)"
    using import_merges_fresh_entries [of example_browser example_browser example_localStorage example_localStorage]
    by blast
  with a f have stored: "getServers example_browser
          (snd (importServers example_browser (exportServers example_browser example_localStorage) (Some True)
                  example_localStorage)) = example_merged"
    by simp
  have r: "write_refused quota_browser example_merged"
    using neq by (simp add: write_refused_def quota_browser_def example_browser_def)
  have "write_refused quota_browser
          (fst (importServers quota_browser (exportServers quota_browser example_localStorage) (Some True)
                  example_localStorage)) \<longrightarrow>
        snd (importServers quota_browser (exportServers quota_browser example_localStorage) (Some True)
               example_localStorage) = example_localStorage"
    using import_merges_fresh_entries [of quota_browser quota_browser example_localStorage example_localStorage]
    by blast
  with r have kept: "snd (importServers quota_browser (exportServers quota_browser example_localStorage)
      (Some True) example_localStorage) = example_localStorage"
    by (simp add: import_quota)
  from g a f ids stored r kept show ?thesis
    by (simp add: example_stored_def)
qed




end
